theory Spec2Isabelle
  imports Complex_Main
begin

section \<open>Python values and the operations the engine applies to them\<close>

text \<open>
  The compatibility engine (\<^verbatim>\<open>etapa2_interfaz/filtros.py\<close>) works on the dictionaries that
  \<^verbatim>\<open>json.load\<close> returns.  A value is \<^verbatim>\<open>None\<close>, a \<^verbatim>\<open>bool\<close>, a number, a \<^verbatim>\<open>str\<close>, a list
  or a \<^verbatim>\<open>dict\<close> with string keys.

  \<^item> Numbers: Python's \<^verbatim>\<open>int\<close> and \<^verbatim>\<open>float\<close> are one constructor holding the rational number
    the value denotes; arithmetic is exact (the binary rounding of \<^verbatim>\<open>float\<close>, NaN and the
    infinities are outside the model).
  \<^item> Strings: a \<^verbatim>\<open>str\<close> is the list of the bytes of its UTF-8 encoding; case mapping,
    whitespace and digits are the ASCII ones.
  \<^item> A \<^verbatim>\<open>dict\<close> is an association list read with \<open>map_of\<close> (keys are unique in Python).
  \<^item> Every exception the code can raise is a value: a function that can raise returns
    \<open>pyerr + 'a\<close>, with \<open>Inl\<close> the exception.
\<close>

datatype json =
    JNull
  | JBool bool
  | JNum rat
  | JStr string
  | JList "json list"
  | JDict "(string \<times> json) list"

datatype pyerr = AttributeError | TypeError | KeyError

type_synonym 'a res = "pyerr + 'a"

definition bind_res :: "'a res \<Rightarrow> ('a \<Rightarrow> 'b res) \<Rightarrow> 'b res" where
  "bind_res m f = (case m of Inl e \<Rightarrow> Inl e | Inr v \<Rightarrow> f v)"

text \<open>\<^verbatim>\<open>d.get(k, default)\<close> on a Python \<^verbatim>\<open>dict\<close> literal of the source.\<close>

definition dict_get :: "('k \<times> 'v) list \<Rightarrow> 'k \<Rightarrow> 'v \<Rightarrow> 'v" where
  "dict_get d k dflt = (case map_of d k of None \<Rightarrow> dflt | Some v \<Rightarrow> v)"

text \<open>
  \<^verbatim>\<open>obj.get(k, default)\<close> on a value read from the data: only a \<^verbatim>\<open>dict\<close> has the method;
  on \<^verbatim>\<open>None\<close>, a number, a string or a list Python raises \<^verbatim>\<open>AttributeError\<close>.  A key that is
  present with the value \<^verbatim>\<open>None\<close> yields \<^verbatim>\<open>None\<close>, not the default.
\<close>

fun py_get :: "json \<Rightarrow> string \<Rightarrow> json \<Rightarrow> json res" where
  "py_get (JDict kvs) k dflt = Inr (dict_get kvs k dflt)"
| "py_get _ k dflt = Inl AttributeError"

text \<open>Truth value of an object in a condition (\<^verbatim>\<open>if x:\<close>, \<^verbatim>\<open>not x\<close>, \<^verbatim>\<open>x and y\<close>).\<close>

fun truthy :: "json \<Rightarrow> bool" where
  "truthy JNull = False"
| "truthy (JBool b) = b"
| "truthy (JNum r) = (r \<noteq> 0)"
| "truthy (JStr s) = (s \<noteq> [])"
| "truthy (JList xs) = (xs \<noteq> [])"
| "truthy (JDict kvs) = (kvs \<noteq> [])"

text \<open>
  \<^verbatim>\<open>isinstance(x, (int, float))\<close>: \<^verbatim>\<open>bool\<close> is a subclass of \<^verbatim>\<open>int\<close>, so \<^verbatim>\<open>True\<close> and
  \<^verbatim>\<open>False\<close> are numbers (1 and 0) as well.
\<close>

fun py_num :: "json \<Rightarrow> rat option" where
  "py_num (JNum r) = Some r"
| "py_num (JBool b) = Some (if b then 1 else 0)"
| "py_num _ = None"

fun is_dict :: "json \<Rightarrow> bool" where
  "is_dict (JDict kvs) = True"
| "is_dict _ = False"

text \<open>
  \<^verbatim>\<open>a == b\<close>: numbers (and booleans) are equal when their values are; everything else is
  compared structurally.
\<close>

definition py_eq :: "json \<Rightarrow> json \<Rightarrow> bool" where
  "py_eq a b = (case (py_num a, py_num b) of (Some x, Some y) \<Rightarrow> x = y | _ \<Rightarrow> a = b)"

text \<open>
  The ordering comparisons \<^verbatim>\<open>a > b\<close>, \<^verbatim>\<open>a < b\<close>, \<^verbatim>\<open>a >= b\<close>.  In every comparison of the
  engine one operand is a number, so the other must be a number too: Python 3 raises
  \<^verbatim>\<open>TypeError\<close> when it is \<^verbatim>\<open>None\<close>, a string, a list or a dict.
\<close>

definition py_cmp :: "(rat \<Rightarrow> rat \<Rightarrow> bool) \<Rightarrow> json \<Rightarrow> json \<Rightarrow> bool res" where
  "py_cmp rel a b = (case (py_num a, py_num b) of (Some x, Some y) \<Rightarrow> Inr (rel x y) | _ \<Rightarrow> Inl TypeError)"

subsection \<open>Strings\<close>

definition is_space :: "char \<Rightarrow> bool" where
  "is_space c = (c \<in> set [CHR 0x09, CHR 0x0A, CHR 0x0B, CHR 0x0C, CHR 0x0D,
                           CHR 0x1C, CHR 0x1D, CHR 0x1E, CHR 0x1F, CHR '' ''])"

definition py_strip :: "string \<Rightarrow> string" where
  "py_strip s = rev (dropWhile is_space (rev (dropWhile is_space s)))"

definition lower_char :: "char \<Rightarrow> char" where
  "lower_char c = dict_get (zip ''ABCDEFGHIJKLMNOPQRSTUVWXYZ'' ''abcdefghijklmnopqrstuvwxyz'') c c"

definition upper_char :: "char \<Rightarrow> char" where
  "upper_char c = dict_get (zip ''abcdefghijklmnopqrstuvwxyz'' ''ABCDEFGHIJKLMNOPQRSTUVWXYZ'') c c"

definition py_lower :: "string \<Rightarrow> string" where
  "py_lower s = map lower_char s"

definition py_upper :: "string \<Rightarrow> string" where
  "py_upper s = map upper_char s"

text \<open>\<^verbatim>\<open>s.replace(a, b)\<close> for one-character \<^verbatim>\<open>a\<close> and \<^verbatim>\<open>b\<close>.\<close>

definition py_replace_char :: "char \<Rightarrow> char \<Rightarrow> string \<Rightarrow> string" where
  "py_replace_char a b s = map (\<lambda>c. if c = a then b else c) s"

section \<open>The form-factor predicate\<close>

text \<open>
  \<^verbatim>\<open>GestorFiltros._es_case_compatible_con_motherboard\<close> (filtros.py, lines 207-261), on two
  strings.  The alias \<^verbatim>\<open>'\<mu>atx'\<close> starts with U+00B5, the bytes C2 B5.
\<close>

definition form_factor_sizes :: "(string \<times> int) list" where
  "form_factor_sizes =
     [(''e-atx'', 4), (''xl-atx'', 3), (''atx'', 2), (''micro-atx'', 1), (''mini-itx'', 0)]"

definition name_variations :: "(string \<times> string) list" where
  "name_variations =
     [(''matx'', ''micro-atx''),
      (CHR 0xC2 # CHR 0xB5 # ''atx'', ''micro-atx''),
      (''uatx'', ''micro-atx''),
      (''mitx'', ''mini-itx''),
      (''itx'', ''mini-itx'')]"

definition es_case_compatible_con_motherboard :: "string \<Rightarrow> string \<Rightarrow> bool" where
  "es_case_compatible_con_motherboard case_support mb_form_factor =
     (if case_support = [] \<or> mb_form_factor = [] then False
      else
        let case_support_clean = py_replace_char CHR ''_'' CHR ''-'' (py_lower (py_strip case_support));
            mb_form_factor_clean = py_replace_char CHR ''_'' CHR ''-'' (py_lower (py_strip mb_form_factor));
            case_support_clean = dict_get name_variations case_support_clean case_support_clean;
            mb_form_factor_clean = dict_get name_variations mb_form_factor_clean mb_form_factor_clean
        in
          if case_support_clean = mb_form_factor_clean then True
          else
            let case_size = dict_get form_factor_sizes case_support_clean (- 1);
                mb_size = dict_get form_factor_sizes mb_form_factor_clean (- 1)
            in
              if case_size = - 1 \<or> mb_size = - 1
              then case_support_clean = mb_form_factor_clean
              else case_size \<ge> mb_size)"

text \<open>
  The same predicate on values read from the data, as its two callers apply it: a falsy
  argument gives \<^verbatim>\<open>False\<close>; a truthy argument that is not a string has no \<^verbatim>\<open>strip\<close>.
\<close>

definition es_case_compatible_py :: "json \<Rightarrow> json \<Rightarrow> bool res" where
  "es_case_compatible_py case_support mb_form_factor =
     (if truthy case_support \<and> truthy mb_form_factor
      then (case (case_support, mb_form_factor) of
              (JStr c, JStr m) \<Rightarrow> Inr (es_case_compatible_con_motherboard c m)
            | _ \<Rightarrow> Inl AttributeError)
      else Inr False)"

subsection \<open>The rule as the specification words it\<close>




section \<open>The power budget\<close>

text \<open>
  \<^verbatim>\<open>GestorFiltros._calcular_potencia_requerida\<close> (filtros.py, lines 302-359).  The CPU's
  share is read from \<^verbatim>\<open>architecture.tdp\<close> (a dict with a \<^verbatim>\<open>value\<close>, or a number) and
  then from the record's own \<^verbatim>\<open>tdp\<close>; the GPU's share is looked up by
  \<^verbatim>\<open>calculated_metrics.gpu_category\<close> alone.
\<close>

definition potencia_cpu :: "json \<Rightarrow> rat res" where
  "potencia_cpu cpu_data =
     bind_res (py_get cpu_data ''architecture'' JNull) (\<lambda>arch.
       let cpu_tdp =
             (case arch of
                JDict a \<Rightarrow>
                  (case dict_get a ''tdp'' JNull of
                     JDict t \<Rightarrow> dict_get t ''value'' (JNum 65)
                   | JNum r \<Rightarrow> JNum r
                   | JBool b \<Rightarrow> JBool b
                   | _ \<Rightarrow> JNull)
              | _ \<Rightarrow> JNull)
       in bind_res (if cpu_tdp = JNull then py_get cpu_data ''tdp'' (JNum 65) else Inr cpu_tdp)
            (\<lambda>cpu_tdp. Inr (case py_num cpu_tdp of Some r \<Rightarrow> r | None \<Rightarrow> 65)))"

definition gpu_power_map :: "(string \<times> rat) list" where
  "gpu_power_map =
     [(''entry_level'', 75), (''budget'', 120), (''mid_range'', 180),
      (''high_end'', 250), (''enthusiast'', 320), (''flagship'', 400)]"

text \<open>
  \<^verbatim>\<open>gpu_power_map.get(gpu_category, 180)\<close> hashes its key: a list or a dict raises
  \<^verbatim>\<open>TypeError\<close>; \<^verbatim>\<open>None\<close>, a boolean or a number is no key of the table.
\<close>

definition potencia_gpu :: "json \<Rightarrow> rat res" where
  "potencia_gpu gpu_data =
     bind_res (py_get gpu_data ''calculated_metrics'' JNull) (\<lambda>cm.
       let gpu_category =
             (case cm of
                JDict d \<Rightarrow> dict_get d ''gpu_category'' (JStr ''mid_range'')
              | _ \<Rightarrow> JStr ''mid_range'')
       in (case gpu_category of
             JStr s \<Rightarrow> Inr (dict_get gpu_power_map s 180)
           | JList xs \<Rightarrow> Inl TypeError
           | JDict kvs \<Rightarrow> Inl TypeError
           | _ \<Rightarrow> Inr 180))"

definition calcular_potencia_requerida :: "(string \<times> json) list option \<Rightarrow> rat res" where
  "calcular_potencia_requerida componentes =
     (case componentes of
        None \<Rightarrow> Inr 300
      | Some c \<Rightarrow>
          if c = [] then Inr 300
          else
            bind_res (case map_of c ''cpu'' of None \<Rightarrow> Inr 0 | Some cpu_data \<Rightarrow> potencia_cpu cpu_data)
              (\<lambda>p_cpu.
            bind_res (case map_of c ''gpu'' of None \<Rightarrow> Inr 0 | Some gpu_data \<Rightarrow> potencia_gpu gpu_data)
              (\<lambda>p_gpu.
                Inr (max (0 + p_cpu + p_gpu + 50 + 30) 300))))"

subsection \<open>The budget as the specification words it\<close>

text \<open>
  The specification's estimate reads a direct TDP of the GPU before the category table.
  The normalised GPU record keeps its TDP under \<^verbatim>\<open>performance.tdp.value\<close>; a record may
  also carry a plain \<^verbatim>\<open>tdp\<close>, as the CPU's fallback does.
\<close>

definition spec_cpu_contribution :: "json \<Rightarrow> rat" where
  "spec_cpu_contribution cpu_data =
     (let direct =
            (case cpu_data of
               JDict c \<Rightarrow>
                 (case dict_get c ''architecture'' JNull of
                    JDict a \<Rightarrow>
                      (case dict_get a ''tdp'' JNull of
                         JDict t \<Rightarrow> dict_get t ''value'' (JNum 65)
                       | JNum r \<Rightarrow> JNum r
                       | JBool b \<Rightarrow> JBool b
                       | _ \<Rightarrow> JNull)
                  | _ \<Rightarrow> JNull)
             | _ \<Rightarrow> JNull);
          direct = (if direct = JNull
                    then (case cpu_data of JDict c \<Rightarrow> dict_get c ''tdp'' (JNum 65) | _ \<Rightarrow> JNull)
                    else direct)
      in case py_num direct of Some r \<Rightarrow> r | None \<Rightarrow> 65)"

definition spec_gpu_direct_tdp :: "json \<Rightarrow> rat option" where
  "spec_gpu_direct_tdp gpu_data =
     (case gpu_data of
        JDict g \<Rightarrow>
          (case (case dict_get g ''performance'' JNull of
                   JDict p \<Rightarrow>
                     (case dict_get p ''tdp'' JNull of
                        JDict t \<Rightarrow> py_num (dict_get t ''value'' JNull)
                      | v \<Rightarrow> py_num v)
                 | _ \<Rightarrow> None) of
             Some r \<Rightarrow> Some r
           | None \<Rightarrow> py_num (dict_get g ''tdp'' JNull))
      | _ \<Rightarrow> None)"

definition category_lookup :: "json \<Rightarrow> rat" where
  "category_lookup gpu_data =
     (case gpu_data of
        JDict g \<Rightarrow>
          (case dict_get g ''calculated_metrics'' JNull of
             JDict d \<Rightarrow>
               (case dict_get d ''gpu_category'' (JStr ''mid_range'') of
                  JStr s \<Rightarrow> dict_get gpu_power_map s 180
                | _ \<Rightarrow> 180)
           | _ \<Rightarrow> 180)
      | _ \<Rightarrow> 180)"

definition spec_gpu_contribution :: "json \<Rightarrow> rat" where
  "spec_gpu_contribution gpu_data =
     (case spec_gpu_direct_tdp gpu_data of
        Some r \<Rightarrow> r
      | None \<Rightarrow> category_lookup gpu_data)"

definition spec_power_budget :: "(string \<times> json) list \<Rightarrow> rat" where
  "spec_power_budget build =
     max 300
       ((case map_of build ''cpu'' of None \<Rightarrow> 0 | Some c \<Rightarrow> spec_cpu_contribution c)
        + (case map_of build ''gpu'' of None \<Rightarrow> 0 | Some g \<Rightarrow> spec_gpu_contribution g)
        + 50 + 30)"

text \<open>The budget the code computes, in closed form: the GPU's share is the category lookup.\<close>

definition power_budget :: "(string \<times> json) list \<Rightarrow> rat" where
  "power_budget build =
     max 300
       ((case map_of build ''cpu'' of None \<Rightarrow> 0 | Some c \<Rightarrow> spec_cpu_contribution c)
        + (case map_of build ''gpu'' of None \<Rightarrow> 0 | Some g \<Rightarrow> category_lookup g)
        + 50 + 30)"

text \<open>
  The builds on which the estimate returns: a selected CPU or GPU is a record, and the
  GPU's category, when \<^verbatim>\<open>calculated_metrics\<close> is a dict that has one, is not a list or a dict.
\<close>

definition category_hashable :: "json \<Rightarrow> bool" where
  "category_hashable gpu_data =
     (case gpu_data of
        JDict g \<Rightarrow>
          (case dict_get g ''calculated_metrics'' JNull of
             JDict d \<Rightarrow>
               (case dict_get d ''gpu_category'' (JStr ''mid_range'') of
                  JList xs \<Rightarrow> False
                | JDict kvs \<Rightarrow> False
                | _ \<Rightarrow> True)
           | _ \<Rightarrow> True)
      | _ \<Rightarrow> False)"

definition build_records :: "(string \<times> json) list \<Rightarrow> bool" where
  "build_records build =
     ((case map_of build ''cpu'' of None \<Rightarrow> True | Some c \<Rightarrow> is_dict c) \<and>
      (case map_of build ''gpu'' of None \<Rightarrow> True | Some g \<Rightarrow> category_hashable g))"

section \<open>Reports\<close>

text \<open>
  A message of a report.  The source formats each one as text from the values kept here
  (for instance \<^verbatim>\<open>"PSU insuficiente: {w}W vs {p}W requeridos"\<close> from the PSU's wattage and the
  required power); the constructor names the message, its arguments are those values.
\<close>

datatype mensaje =
    IncompatibilidadSocket json json
  | IncompatibilidadRAM json json
  | IncompatibilidadFormFactor json json
  | CaseNoEspecificaMotherboard
  | MotherboardNoEspecificaFormFactor
  | PSUInsuficiente rat rat
  | PSUMargenAjustado rat rat
  | PSUNoEspecificaPotencia
  | GPUMuyLarga rat rat
  | GPUAjustada rat rat
  | CoolerMuyAlto rat rat
  | SlotsRAMInsuficientes rat rat
  | PuertosSATAInsuficientes rat rat

text \<open>
  The result dictionary with its keys \<^verbatim>\<open>'compatible'\<close>, \<^verbatim>\<open>'advertencias'\<close> and
  \<^verbatim>\<open>'errores'\<close>.  (\<^verbatim>\<open>verificar_compatibilidad_completa\<close> also creates the key
  \<^verbatim>\<open>'recomendaciones'\<close>, an empty list it never writes to.)
\<close>

record reporte =
  compatible :: bool
  advertencias :: "mensaje list"
  errores :: "mensaje list"

definition reporte_inicial :: reporte where
  "reporte_inicial = \<lparr>compatible = True, advertencias = [], errores = []\<rparr>"

text \<open>
  The two ways the source writes to a report: an error is appended together with
  \<^verbatim>\<open>resultado['compatible'] = False\<close>; a warning is appended alone.
\<close>

definition agregar_error :: "mensaje \<Rightarrow> reporte \<Rightarrow> reporte" where
  "agregar_error m r = r\<lparr>errores := errores r @ [m], compatible := False\<rparr>"

definition agregar_advertencia :: "mensaje \<Rightarrow> reporte \<Rightarrow> reporte" where
  "agregar_advertencia m r = r\<lparr>advertencias := advertencias r @ [m]\<rparr>"

text \<open>The flag of a report agrees with its list of errors.\<close>

definition reporte_ok :: "reporte \<Rightarrow> bool" where
  "reporte_ok r = (compatible r = (errores r = []))"

section \<open>The full-build validator\<close>

text \<open>
  \<^verbatim>\<open>GestorFiltros.verificar_compatibilidad_completa\<close> (filtros.py, lines 361-456): four
  checks in sequence on the report, each of which may raise.
\<close>

definition verificar_cpu_motherboard :: "(string \<times> json) list \<Rightarrow> reporte \<Rightarrow> reporte res" where
  "verificar_cpu_motherboard configuracion r =
     (case (map_of configuracion ''cpu'', map_of configuracion ''motherboard'') of
        (Some cpu, Some mb) \<Rightarrow>
          bind_res (py_get cpu ''architecture'' (JDict [])) (\<lambda>a.
          bind_res (py_get a ''socket'' JNull) (\<lambda>cpu_socket.
          bind_res (py_get mb ''platform'' (JDict [])) (\<lambda>p.
          bind_res (py_get p ''socket'' JNull) (\<lambda>mb_socket.
            Inr (if py_eq cpu_socket mb_socket then r
                 else agregar_error (IncompatibilidadSocket cpu_socket mb_socket) r)))))
      | _ \<Rightarrow> Inr r)"

definition verificar_ram_motherboard :: "(string \<times> json) list \<Rightarrow> reporte \<Rightarrow> reporte res" where
  "verificar_ram_motherboard configuracion r =
     (case (map_of configuracion ''ram'', map_of configuracion ''motherboard'') of
        (Some ram, Some mb) \<Rightarrow>
          bind_res (py_get ram ''memory_specs'' (JDict [])) (\<lambda>ms.
          bind_res (py_get ms ''ram_type'' (JDict [])) (\<lambda>rt.
          bind_res (py_get rt ''generation'' JNull) (\<lambda>ram_type.
          bind_res (py_get mb ''memory'' (JDict [])) (\<lambda>mem.
          bind_res (py_get mem ''type'' JNull) (\<lambda>mb_ram_type.
            Inr (if py_eq ram_type mb_ram_type then r
                 else agregar_error (IncompatibilidadRAM ram_type mb_ram_type) r))))))
      | _ \<Rightarrow> Inr r)"

definition verificar_case_motherboard :: "(string \<times> json) list \<Rightarrow> reporte \<Rightarrow> reporte res" where
  "verificar_case_motherboard configuracion r =
     (case (map_of configuracion ''case'', map_of configuracion ''motherboard'') of
        (Some cs, Some mb) \<Rightarrow>
          bind_res (py_get cs ''compatibility'' (JDict [])) (\<lambda>co.
          bind_res (py_get co ''motherboard'' JNull) (\<lambda>case_mb_support.
          bind_res (py_get mb ''form_factor'' JNull) (\<lambda>mb_form_factor.
            if truthy case_mb_support \<and> truthy mb_form_factor
            then bind_res (es_case_compatible_py case_mb_support mb_form_factor) (\<lambda>ok.
                   Inr (if ok then r
                        else agregar_error (IncompatibilidadFormFactor case_mb_support mb_form_factor) r))
            else if \<not> truthy case_mb_support
            then Inr (agregar_advertencia CaseNoEspecificaMotherboard r)
            else if \<not> truthy mb_form_factor
            then Inr (agregar_advertencia MotherboardNoEspecificaFormFactor r)
            else Inr r)))
      | _ \<Rightarrow> Inr r)"

text \<open>
  \<^verbatim>\<open>'k' in obj\<close> and \<^verbatim>\<open>obj['k']\<close> for a string key.  On a string \<^verbatim>\<open>in\<close> is the substring
  test, on a list membership; \<^verbatim>\<open>None\<close>, booleans and numbers are not iterable.  Only a
  dict can be indexed by a string.
\<close>

fun startswith :: "string \<Rightarrow> string \<Rightarrow> bool" where
  "startswith s [] = True"
| "startswith [] (p # ps) = False"
| "startswith (c # cs) (p # ps) = (c = p \<and> startswith cs ps)"

fun py_in_str :: "string \<Rightarrow> string \<Rightarrow> bool" where
  "py_in_str x [] = (x = [])"
| "py_in_str x (c # cs) = (startswith (c # cs) x \<or> py_in_str x cs)"

fun py_has_key :: "string \<Rightarrow> json \<Rightarrow> bool res" where
  "py_has_key k (JDict kvs) = Inr (map_of kvs k \<noteq> None)"
| "py_has_key k (JStr s) = Inr (py_in_str k s)"
| "py_has_key k (JList xs) = Inr (list_ex (py_eq (JStr k)) xs)"
| "py_has_key k _ = Inl TypeError"

fun py_index :: "json \<Rightarrow> string \<Rightarrow> json res" where
  "py_index (JDict kvs) k = (case map_of kvs k of None \<Rightarrow> Inl KeyError | Some v \<Rightarrow> Inr v)"
| "py_index _ k = Inl TypeError"

text \<open>The PSU's wattage as lines 426-439 extract it; \<^verbatim>\<open>psu_wattage\<close> starts as 0.\<close>

definition extraer_potencia_psu :: "json \<Rightarrow> json res" where
  "extraer_potencia_psu psu_data =
     bind_res (py_has_key ''power'' psu_data) (\<lambda>has_power.
     bind_res (if has_power then py_index psu_data ''power'' else Inr JNull) (\<lambda>power_info.
     bind_res
       (if has_power \<and> is_dict power_info
        then bind_res (py_has_key ''wattage'' power_info) (\<lambda>has_wattage.
             bind_res (if has_wattage then py_index power_info ''wattage'' else Inr JNull) (\<lambda>wattage.
               if has_wattage \<and> is_dict wattage then py_get wattage ''value'' (JNum 0)
               else if has_wattage then py_get power_info ''wattage'' (JNum 0)
               else Inr (JNum 0)))
        else Inr (JNum 0))
       (\<lambda>psu_wattage.
          if py_eq psu_wattage (JNum 0) then py_get psu_data ''wattage'' (JNum 0)
          else Inr psu_wattage)))"

definition verificar_psu :: "(string \<times> json) list \<Rightarrow> reporte \<Rightarrow> reporte res" where
  "verificar_psu configuracion r =
     (case map_of configuracion ''psu'' of
        None \<Rightarrow> Inr r
      | Some psu_data \<Rightarrow>
          bind_res (calcular_potencia_requerida (Some configuracion)) (\<lambda>potencia_requerida.
          bind_res (extraer_potencia_psu psu_data) (\<lambda>psu_wattage.
          bind_res (py_cmp (\<lambda>x y. x > y) psu_wattage (JNum 0)) (\<lambda>positive.
            if positive
            then bind_res (py_cmp (\<lambda>x y. x < y) psu_wattage (JNum potencia_requerida)) (\<lambda>insuficiente.
                   if insuficiente
                   then Inr (agregar_error
                               (PSUInsuficiente (the (py_num psu_wattage)) potencia_requerida) r)
                   else bind_res (py_cmp (\<lambda>x y. x < y) psu_wattage (JNum (potencia_requerida * 1.2)))
                          (\<lambda>ajustado.
                             Inr (if ajustado
                                  then agregar_advertencia
                                         (PSUMargenAjustado (the (py_num psu_wattage)) potencia_requerida) r
                                  else r)))
            else Inr (agregar_advertencia PSUNoEspecificaPotencia r)))))"

definition verificar_compatibilidad_completa :: "(string \<times> json) list \<Rightarrow> reporte res" where
  "verificar_compatibilidad_completa configuracion =
     bind_res (verificar_cpu_motherboard configuracion reporte_inicial) (\<lambda>r1.
     bind_res (verificar_ram_motherboard configuracion r1) (\<lambda>r2.
     bind_res (verificar_case_motherboard configuracion r2) (\<lambda>r3.
       verificar_psu configuracion r3)))"

section \<open>The physical validators\<close>

text \<open>
  \<^verbatim>\<open>ValidadorCompatibilidad.validar_dimensiones_fisicas\<close> (filtros.py, lines 805-853).
  \<^verbatim>\<open>configuracion.get('case')\<close> is \<^verbatim>\<open>None\<close> for a category that is not selected; the
  conjunction \<^verbatim>\<open>a > 0 and b > 0\<close> evaluates \<^verbatim>\<open>b > 0\<close> only when \<^verbatim>\<open>a > 0\<close> holds.
\<close>

definition valor_anidado :: "json \<Rightarrow> string \<Rightarrow> string \<Rightarrow> json res" where
  "valor_anidado obj k1 k2 =
     bind_res (py_get obj k1 (JDict [])) (\<lambda>d1.
     bind_res (py_get d1 k2 (JDict [])) (\<lambda>d2.
       py_get d2 ''value'' (JNum 0)))"

definition validar_gpu_case :: "json \<Rightarrow> json \<Rightarrow> reporte \<Rightarrow> reporte res" where
  "validar_gpu_case cs gpu r =
     (if truthy cs \<and> truthy gpu
      then
        bind_res (valor_anidado cs ''compatibility'' ''supported_gpu_length'') (\<lambda>max_gpu_length.
        bind_res (valor_anidado gpu ''dimensions'' ''length'') (\<lambda>gpu_length.
        bind_res (py_cmp (\<lambda>x y. x > y) max_gpu_length (JNum 0)) (\<lambda>p1.
        bind_res (if p1 then py_cmp (\<lambda>x y. x > y) gpu_length (JNum 0) else Inr False) (\<lambda>p2.
          if p2
          then (let g = the (py_num gpu_length); l = the (py_num max_gpu_length)
                in if g > l then Inr (agregar_error (GPUMuyLarga g l) r)
                   else if g > l * 0.9 then Inr (agregar_advertencia (GPUAjustada g l) r)
                   else Inr r)
          else Inr r))))
      else Inr r)"

definition validar_cooler_case :: "json \<Rightarrow> json \<Rightarrow> reporte \<Rightarrow> reporte res" where
  "validar_cooler_case cs cpu_cooler r =
     (if truthy cs \<and> truthy cpu_cooler
      then
        bind_res (valor_anidado cs ''compatibility'' ''supported_cpu_cooler_height'') (\<lambda>max_cooler_height.
        bind_res (valor_anidado cpu_cooler ''dimensions'' ''height'') (\<lambda>cooler_height.
        bind_res (py_cmp (\<lambda>x y. x > y) max_cooler_height (JNum 0)) (\<lambda>p1.
        bind_res (if p1 then py_cmp (\<lambda>x y. x > y) cooler_height (JNum 0) else Inr False) (\<lambda>p2.
          if p2
          then (let h = the (py_num cooler_height); l = the (py_num max_cooler_height)
                in if h > l then Inr (agregar_error (CoolerMuyAlto h l) r) else Inr r)
          else Inr r))))
      else Inr r)"

definition validar_dimensiones_fisicas :: "(string \<times> json) list \<Rightarrow> reporte res" where
  "validar_dimensiones_fisicas configuracion =
     (let cs = dict_get configuracion ''case'' JNull;
          gpu = dict_get configuracion ''gpu'' JNull;
          cpu_cooler = dict_get configuracion ''cpu_cooler'' JNull
      in bind_res (validar_gpu_case cs gpu reporte_inicial) (\<lambda>r1.
           validar_cooler_case cs cpu_cooler r1))"

text \<open>
  \<^verbatim>\<open>ValidadorCompatibilidad.validar_conectividad\<close> (filtros.py, lines 855-897).  Iterating a
  dict yields its keys, iterating a string its characters; a number or a boolean is not
  iterable.  \<^verbatim>\<open>sum\<close> starts from 0 and adds each item as the generator produces it; adding
  anything but a number raises \<^verbatim>\<open>TypeError\<close>.
\<close>

fun py_iter :: "json \<Rightarrow> json list res" where
  "py_iter (JList xs) = Inr xs"
| "py_iter (JDict kvs) = Inr (map (\<lambda>kv. JStr (fst kv)) kvs)"
| "py_iter (JStr s) = Inr (map (\<lambda>c. JStr [c]) s)"
| "py_iter _ = Inl TypeError"

fun sumar_sticks :: "json list \<Rightarrow> rat \<Rightarrow> rat res" where
  "sumar_sticks [] suma = Inr suma"
| "sumar_sticks (ram # rams) suma =
     bind_res (py_get ram ''memory_specs'' (JDict [])) (\<lambda>ms.
     bind_res (py_get ms ''sticks'' (JNum 1)) (\<lambda>sticks.
       case py_num sticks of
         None \<Rightarrow> Inl TypeError
       | Some n \<Rightarrow> sumar_sticks rams (suma + n)))"

fun contar_sata :: "json list \<Rightarrow> rat \<Rightarrow> rat res" where
  "contar_sata [] n = Inr n"
| "contar_sata (dev # devs) n =
     bind_res (py_get dev ''interface'' JNull) (\<lambda>interface.
       contar_sata devs (if py_eq interface (JStr ''SATA'') then n + 1 else n))"

definition validar_slots_ram :: "json \<Rightarrow> json \<Rightarrow> reporte \<Rightarrow> reporte res" where
  "validar_slots_ram motherboard ram_modules r =
     (if truthy motherboard \<and> truthy ram_modules
      then
        bind_res (py_get motherboard ''memory'' (JDict [])) (\<lambda>mem.
        bind_res (py_get mem ''slots'' (JNum 0)) (\<lambda>ram_slots_disponibles.
        bind_res (py_iter ram_modules) (\<lambda>rams.
        bind_res (sumar_sticks rams 0) (\<lambda>ram_modules_necesarios.
        bind_res (py_cmp (\<lambda>x y. x > y) (JNum ram_modules_necesarios) ram_slots_disponibles) (\<lambda>faltan.
          Inr (if faltan
               then agregar_error
                      (SlotsRAMInsuficientes ram_modules_necesarios (the (py_num ram_slots_disponibles))) r
               else r))))))
      else Inr r)"

definition validar_puertos_sata :: "json \<Rightarrow> json \<Rightarrow> reporte \<Rightarrow> reporte res" where
  "validar_puertos_sata motherboard storage_devices r =
     (if truthy motherboard \<and> truthy storage_devices
      then
        bind_res (py_get motherboard ''connectivity'' (JDict [])) (\<lambda>con.
        bind_res (py_get con ''sata_ports'' (JNum 0)) (\<lambda>sata_ports.
        bind_res (py_iter storage_devices) (\<lambda>devs.
        bind_res (contar_sata devs 0) (\<lambda>sata_devices.
        bind_res (py_cmp (\<lambda>x y. x > y) (JNum sata_devices) sata_ports) (\<lambda>faltan.
          Inr (if faltan
               then agregar_error
                      (PuertosSATAInsuficientes sata_devices (the (py_num sata_ports))) r
               else r))))))
      else Inr r)"

definition validar_conectividad :: "(string \<times> json) list \<Rightarrow> reporte res" where
  "validar_conectividad configuracion =
     (let motherboard = dict_get configuracion ''motherboard'' JNull;
          ram_modules = dict_get configuracion ''ram_modules'' (JList []);
          storage_devices = dict_get configuracion ''storage_devices'' (JList [])
      in bind_res (validar_slots_ram motherboard ram_modules reporte_inicial) (\<lambda>r1.
           validar_puertos_sata motherboard storage_devices r1))"

section \<open>The cascading filters\<close>

text \<open>
  \<^verbatim>\<open>self.datos\<close> maps a category name to the list of its records;
  \<^verbatim>\<open>self.datos.get(k, [])\<close> is the empty list for a category that was not loaded.
\<close>

type_synonym datos = "string \<Rightarrow> json list option"

definition datos_get :: "datos \<Rightarrow> string \<Rightarrow> json list" where
  "datos_get d k = (case d k of None \<Rightarrow> [] | Some l \<Rightarrow> l)"

definition socket_de_motherboard :: "json \<Rightarrow> json res" where
  "socket_de_motherboard mb =
     bind_res (py_get mb ''platform'' (JDict [])) (\<lambda>p. py_get p ''socket'' JNull)"

text \<open>\<^verbatim>\<open>GestorFiltros.filtrar_motherboards_por_socket\<close> (filtros.py, lines 118-132).\<close>

fun filtrar_motherboards_bucle :: "json list \<Rightarrow> string \<Rightarrow> json list \<Rightarrow> json list res" where
  "filtrar_motherboards_bucle [] socket motherboards_compatibles = Inr motherboards_compatibles"
| "filtrar_motherboards_bucle (mb # mbs) socket motherboards_compatibles =
     bind_res (socket_de_motherboard mb) (\<lambda>v.
       filtrar_motherboards_bucle mbs socket
         (if py_eq v (JStr socket) then motherboards_compatibles @ [mb]
          else motherboards_compatibles))"

definition filtrar_motherboards_por_socket :: "datos \<Rightarrow> string \<Rightarrow> json list res" where
  "filtrar_motherboards_por_socket d socket =
     filtrar_motherboards_bucle (datos_get d ''motherboard'') socket []"

text \<open>
  A motherboard record: a dict whose \<^verbatim>\<open>platform\<close>, when it has one, is a dict.  These are
  the entries on which reading the socket does not raise.
\<close>

definition motherboard_record :: "json \<Rightarrow> bool" where
  "motherboard_record mb =
     (case mb of JDict kvs \<Rightarrow> is_dict (dict_get kvs ''platform'' (JDict [])) | _ \<Rightarrow> False)"

text \<open>
  \<^verbatim>\<open>GestorFiltros.filtrar_ram_por_motherboard\<close> (filtros.py, lines 151-185).  A list
  comprehension \<^verbatim>\<open>[x for x in xs if c(x)]\<close> whose condition can raise; a \<^verbatim>\<open>set\<close> kept as the
  list of its distinct members (hashing a list or a dict raises \<^verbatim>\<open>TypeError\<close>).
\<close>

fun comprension :: "('a \<Rightarrow> bool res) \<Rightarrow> 'a list \<Rightarrow> 'a list res" where
  "comprension c [] = Inr []"
| "comprension c (x # xs) =
     bind_res (c x) (\<lambda>b.
     bind_res (comprension c xs) (\<lambda>r.
       Inr (if b then x # r else r)))"

fun py_hashable :: "json \<Rightarrow> bool" where
  "py_hashable (JList xs) = False"
| "py_hashable (JDict kvs) = False"
| "py_hashable _ = True"

definition set_contains :: "json \<Rightarrow> json list \<Rightarrow> bool res" where
  "set_contains x s = (if py_hashable x then Inr (list_ex (py_eq x) s) else Inl TypeError)"

definition set_add :: "json \<Rightarrow> json list \<Rightarrow> json list res" where
  "set_add x s =
     (if py_hashable x then Inr (if list_ex (py_eq x) s then s else s @ [x]) else Inl TypeError)"

fun recoger_tipos_ram :: "json list \<Rightarrow> json list \<Rightarrow> json list res" where
  "recoger_tipos_ram [] tipos_ram_soportados = Inr tipos_ram_soportados"
| "recoger_tipos_ram (mb # mbs) tipos_ram_soportados =
     bind_res (py_get mb ''memory'' (JDict [])) (\<lambda>mem.
     bind_res (py_get mem ''type'' JNull) (\<lambda>t.
       if truthy t
       then bind_res (py_index mb ''memory'') (\<lambda>mem2.
            bind_res (py_index mem2 ''type'') (\<lambda>t2.
            bind_res (set_add t2 tipos_ram_soportados) (\<lambda>tipos.
              recoger_tipos_ram mbs tipos)))
       else recoger_tipos_ram mbs tipos_ram_soportados))"

definition generacion_de_ram :: "json \<Rightarrow> json res" where
  "generacion_de_ram ram =
     bind_res (py_get ram ''memory_specs'' (JDict [])) (\<lambda>ms.
     bind_res (py_get ms ''ram_type'' (JDict [])) (\<lambda>rt.
       py_get rt ''generation'' JNull))"

fun filtrar_ram_bucle :: "json list \<Rightarrow> json list \<Rightarrow> json list \<Rightarrow> json list res" where
  "filtrar_ram_bucle [] tipos ram_compatible = Inr ram_compatible"
| "filtrar_ram_bucle (ram # rams) tipos ram_compatible =
     bind_res (generacion_de_ram ram) (\<lambda>ram_type.
     bind_res (set_contains ram_type tipos) (\<lambda>soportado.
       filtrar_ram_bucle rams tipos
         (if soportado then ram_compatible @ [ram] else ram_compatible)))"

definition motherboards_compatibles :: "json list \<Rightarrow> string option \<Rightarrow> string option \<Rightarrow> json list res" where
  "motherboards_compatibles mbs socket form_factor =
     bind_res
       (case socket of
          None \<Rightarrow> Inr mbs
        | Some s \<Rightarrow>
            if s = [] then Inr mbs
            else comprension
                   (\<lambda>mb. bind_res (socket_de_motherboard mb) (\<lambda>v. Inr (py_eq v (JStr s)))) mbs)
       (\<lambda>mbs1.
          case form_factor of
            None \<Rightarrow> Inr mbs1
          | Some f \<Rightarrow>
              if f = [] then Inr mbs1
              else comprension
                     (\<lambda>mb. bind_res (py_get mb ''form_factor'' JNull) (\<lambda>v. Inr (py_eq v (JStr f))))
                     mbs1)"

definition filtrar_ram_por_motherboard ::
  "datos \<Rightarrow> string option \<Rightarrow> string option \<Rightarrow> (json list \<times> json list) res" where
  "filtrar_ram_por_motherboard d socket form_factor =
     bind_res (motherboards_compatibles (datos_get d ''motherboard'') socket form_factor) (\<lambda>mbs.
     bind_res (recoger_tipos_ram mbs []) (\<lambda>tipos_ram_soportados.
     bind_res (filtrar_ram_bucle (datos_get d ''ram'') tipos_ram_soportados []) (\<lambda>ram_compatible.
       Inr (ram_compatible, tipos_ram_soportados))))"

text \<open>A RAM record whose generation is read without an exception and is in the set.\<close>

definition ram_soportada :: "json list \<Rightarrow> json \<Rightarrow> bool" where
  "ram_soportada tipos ram =
     (bind_res (generacion_de_ram ram) (\<lambda>ram_type. set_contains ram_type tipos) = Inr True)"

subsection \<open>The RAM filter as the specification words it\<close>

text \<open>
  A motherboard matches an optional socket and an optional form factor when each one that
  is given (and not empty) equals the board's own; the supported generations are the
  memory types of the matching boards that have one; a RAM record is compatible when its
  generation is one of them.
\<close>

definition coincide_socket :: "string option \<Rightarrow> json \<Rightarrow> bool" where
  "coincide_socket socket mb =
     (case socket of
        None \<Rightarrow> True
      | Some s \<Rightarrow> if s = [] then True else socket_de_motherboard mb = Inr (JStr s))"

definition coincide_form_factor :: "string option \<Rightarrow> json \<Rightarrow> bool" where
  "coincide_form_factor form_factor mb =
     (case form_factor of
        None \<Rightarrow> True
      | Some f \<Rightarrow> if f = [] then True else py_get mb ''form_factor'' JNull = Inr (JStr f))"

definition tipo_memoria :: "json \<Rightarrow> json res" where
  "tipo_memoria mb =
     bind_res (py_get mb ''memory'' (JDict [])) (\<lambda>mem. py_get mem ''type'' JNull)"

definition ofrece_generacion :: "json \<Rightarrow> json \<Rightarrow> bool" where
  "ofrece_generacion g mb = (case tipo_memoria mb of Inl e \<Rightarrow> False | Inr t \<Rightarrow> truthy t \<and> py_eq g t)"

definition generacion_soportada :: "datos \<Rightarrow> string option \<Rightarrow> string option \<Rightarrow> json \<Rightarrow> bool" where
  "generacion_soportada d socket form_factor g =
     list_ex (\<lambda>mb. coincide_socket socket mb \<and> coincide_form_factor form_factor mb \<and>
                   ofrece_generacion g mb)
       (datos_get d ''motherboard'')"

definition ram_compatible_spec :: "datos \<Rightarrow> string option \<Rightarrow> string option \<Rightarrow> json \<Rightarrow> bool" where
  "ram_compatible_spec d socket form_factor ram =
     (case generacion_de_ram ram of
        Inl e \<Rightarrow> False
      | Inr g \<Rightarrow> generacion_soportada d socket form_factor g)"










section \<open>Socket families of a CPU cooler\<close>

text \<open>
  \<^verbatim>\<open>SocketSupport.from_string\<close>, \<^verbatim>\<open>SocketSupport.get_socket_families\<close> and the
  \<^verbatim>\<open>is_universal\<close> entry of \<^verbatim>\<open>CPUCoolerDataNormalizer._analyze_compatibility\<close>
  (etapa1_normalizar/clases.py, lines 274-321 and 377-395).
\<close>

fun py_split :: "char \<Rightarrow> string \<Rightarrow> string list" where
  "py_split sep [] = [[]]"
| "py_split sep (c # cs) =
     (if c = sep then [] # py_split sep cs
      else (case py_split sep cs of
              [] \<Rightarrow> [[c]]
            | w # ws \<Rightarrow> (c # w) # ws))"

definition socket_support_from_string :: "string \<Rightarrow> string list" where
  "socket_support_from_string sockets_str =
     (if sockets_str = [] \<or> py_strip sockets_str = [] then []
      else filter (\<lambda>socket. socket \<noteq> []) (map py_strip (py_split CHR '','' sockets_str)))"

definition py_isdigit :: "string \<Rightarrow> bool" where
  "py_isdigit s = (s \<noteq> [] \<and> list_all (\<lambda>c. c \<in> set ''0123456789'') s)"

definition amd_markers :: "string list" where
  "amd_markers = [''AM'', ''FM'', ''TR4'', ''sTRX4'']"

record socket_families =
  intel :: "string list"
  amd :: "string list"

fun get_socket_families_bucle :: "string list \<Rightarrow> string list \<Rightarrow> string list \<Rightarrow> socket_families" where
  "get_socket_families_bucle [] intel_sockets amd_sockets =
     \<lparr>intel = intel_sockets, amd = amd_sockets\<rparr>"
| "get_socket_families_bucle (socket # rest) intel_sockets amd_sockets =
     (if py_isdigit socket \<or> startswith socket ''LGA''
      then get_socket_families_bucle rest (intel_sockets @ [socket]) amd_sockets
      else if list_ex (\<lambda>x. py_in_str x (py_upper socket)) amd_markers
      then get_socket_families_bucle rest intel_sockets (amd_sockets @ [socket])
      else get_socket_families_bucle rest (intel_sockets @ [socket]) (amd_sockets @ [socket]))"

definition get_socket_families :: "string list \<Rightarrow> socket_families" where
  "get_socket_families sockets = get_socket_families_bucle sockets [] []"

definition is_universal :: "string list \<Rightarrow> bool" where
  "is_universal sockets =
     (let families = get_socket_families sockets
      in length (intel families) > 0 \<and> length (amd families) > 0)"

definition analyze_is_universal :: "string \<Rightarrow> bool" where
  "analyze_is_universal supported_sockets = is_universal (socket_support_from_string supported_sockets)"

subsection \<open>The classification as the specification words it\<close>

text \<open>
  Intel when the socket is purely numeric or starts with \<^verbatim>\<open>LGA\<close>; otherwise AMD when it
  contains one of the markers, compared without regard to case; otherwise both families.
\<close>

datatype familia = Intel | AMD | Ambas

definition contains_ignoring_case :: "string \<Rightarrow> string \<Rightarrow> bool" where
  "contains_ignoring_case marker s = py_in_str (py_upper marker) (py_upper s)"

definition spec_familia :: "string \<Rightarrow> familia" where
  "spec_familia socket =
     (if py_isdigit socket \<or> startswith socket ''LGA'' then Intel
      else if list_ex (\<lambda>x. contains_ignoring_case x socket) amd_markers then AMD
      else Ambas)"

definition spec_is_universal :: "string list \<Rightarrow> bool" where
  "spec_is_universal sockets =
     (list_ex (\<lambda>s. spec_familia s = Intel \<or> spec_familia s = Ambas) sockets \<and>
      list_ex (\<lambda>s. spec_familia s = AMD \<or> spec_familia s = Ambas) sockets)"

section \<open>Basic facts\<close>

lemma bind_res_simps [simp]:
  "bind_res (Inr v) f = f v" "bind_res (Inl e) f = Inl e"
  by (simp_all add: bind_res_def)

lemma bind_res_Inr_iff:
  "bind_res m f = Inr r \<longleftrightarrow> (\<exists>v. m = Inr v \<and> f v = Inr r)"
  by (cases m) simp_all

section \<open>Properties of the form-factor predicate\<close>





section \<open>Properties of the power budget\<close>

lemma potencia_cpu_dict:
  "potencia_cpu (JDict c) = Inr (spec_cpu_contribution (JDict c))"
  by (simp add: potencia_cpu_def spec_cpu_contribution_def Let_def split: json.splits)

lemma potencia_cpu_records:
  "is_dict cpu \<Longrightarrow> potencia_cpu cpu = Inr (spec_cpu_contribution cpu)"
  by (cases cpu) (simp_all add: potencia_cpu_dict)

lemma mid_range_default: "dict_get gpu_power_map ''mid_range'' 180 = 180"
  by (simp add: dict_get_def gpu_power_map_def)

lemma potencia_gpu_hashable:
  "category_hashable g \<Longrightarrow> potencia_gpu g = Inr (category_lookup g)"
  by (cases g)
     (auto simp: potencia_gpu_def category_hashable_def category_lookup_def mid_range_default
           Let_def split: json.splits)

lemma calcular_records:
  assumes "build_records build"
  shows "calcular_potencia_requerida (Some build) = Inr (power_budget build)"
proof (cases "build = []")
  case True
  then show ?thesis
    by (simp add: calcular_potencia_requerida_def power_budget_def)
next
  case False
  have c: "(case map_of build ''cpu'' of None \<Rightarrow> Inr 0 | Some cpu_data \<Rightarrow> potencia_cpu cpu_data)
        = Inr (case map_of build ''cpu'' of None \<Rightarrow> 0 | Some c \<Rightarrow> spec_cpu_contribution c)"
    using assms by (auto simp: build_records_def potencia_cpu_records split: option.splits)
  have g: "(case map_of build ''gpu'' of None \<Rightarrow> Inr 0 | Some gpu_data \<Rightarrow> potencia_gpu gpu_data)
        = Inr (case map_of build ''gpu'' of None \<Rightarrow> 0 | Some g \<Rightarrow> category_lookup g)"
    using assms by (auto simp: build_records_def potencia_gpu_hashable split: option.splits)
  show ?thesis
    using False by (simp add: calcular_potencia_requerida_def c g power_budget_def max.commute)
qed

lemma calcular_at_least_300:
  "calcular_potencia_requerida componentes = Inr p \<Longrightarrow> 300 \<le> p"
  by (auto simp: calcular_potencia_requerida_def bind_res_Inr_iff split: option.splits if_splits)

text \<open>
  C2, as the specification states it, fails.  A GPU whose record gives a TDP of 350 W and
  the category \<^verbatim>\<open>budget\<close> is counted with the category's 120 W, so the build is estimated at
  the floor of 300 W where the specification's rule gives 350 + 80 = 430 W.  And the
  estimate can fail: a category that is a list cannot be hashed.
\<close>

theorem power_budget_gpu_tdp_counterexample:
  "calcular_potencia_requerida
     (Some [(''gpu'', JDict [(''performance'', JDict [(''tdp'', JDict [(''value'', JNum 350)])]),
                            (''tdp'', JNum 350),
                            (''calculated_metrics'', JDict [(''gpu_category'', JStr ''budget'')])])])
     = Inr 300
   \<and> spec_power_budget
       [(''gpu'', JDict [(''performance'', JDict [(''tdp'', JDict [(''value'', JNum 350)])]),
                        (''tdp'', JNum 350),
                        (''calculated_metrics'', JDict [(''gpu_category'', JStr ''budget'')])])]
     = 430
   \<and> calcular_potencia_requerida
       (Some [(''gpu'', JDict [(''calculated_metrics'', JDict [(''gpu_category'', JList [])])])])
     = Inl TypeError"
  by (simp add: calcular_potencia_requerida_def potencia_gpu_def dict_get_def gpu_power_map_def
      spec_power_budget_def spec_gpu_contribution_def spec_gpu_direct_tdp_def)

text \<open>
  C2, amended.  For every build whose selected CPU and GPU are records, and whose GPU
  category is not a list or a dict, the estimate returns
  \<open>max 300 (cpu + gpu + 50 + 30)\<close>, where \<open>cpu\<close> is the CPU's direct TDP when it is
  present and numeric and 65 otherwise (0 without a CPU) and \<open>gpu\<close> is the category
  lookup alone: 75, 120, 180, 250, 320, 400 for the six categories and 180 for any other or
  none (0 without a GPU).  A TDP of the GPU is not read.  The result is never below 300,
  and the empty build and no build at all give 300.
\<close>

theorem power_budget_by_category:
  "(build_records build \<longrightarrow>
      calcular_potencia_requerida (Some build) = Inr (power_budget build))
   \<and> 300 \<le> power_budget build
   \<and> (calcular_potencia_requerida componentes = Inr p \<longrightarrow> 300 \<le> p)
   \<and> calcular_potencia_requerida None = Inr 300
   \<and> calcular_potencia_requerida (Some []) = Inr 300
   \<and> map (\<lambda>s. dict_get gpu_power_map s 180)
        [''entry_level'', ''budget'', ''mid_range'', ''high_end'', ''enthusiast'', ''flagship'',
         ''unknown'']
      = [75, 120, 180, 250, 320, 400, 180]"
proof -
  have "300 \<le> power_budget build"
    by (simp add: power_budget_def)
  moreover have "calcular_potencia_requerida None = Inr 300"
    "calcular_potencia_requerida (Some []) = Inr 300"
    by (simp_all add: calcular_potencia_requerida_def)
  moreover have "map (\<lambda>s. dict_get gpu_power_map s 180)
        [''entry_level'', ''budget'', ''mid_range'', ''high_end'', ''enthusiast'', ''flagship'',
         ''unknown'']
      = [75, 120, 180, 250, 320, 400, 180]"
    by (simp add: dict_get_def gpu_power_map_def)
  ultimately show ?thesis
    using calcular_records [of build] calcular_at_least_300 [of componentes p] by blast
qed

theorem power_budget_by_category_witness:
  "calcular_potencia_requerida
     (Some [(''cpu'', JDict [(''architecture'', JDict [(''tdp'', JDict [(''value'', JNum 125)])])]),
            (''gpu'', JDict [(''performance'', JDict [(''tdp'', JDict [(''value'', JNum 350)])]),
                            (''calculated_metrics'', JDict [(''gpu_category'', JStr ''flagship'')])])])
     = Inr 605
   \<and> calcular_potencia_requerida
       (Some [(''cpu'', JDict [(''architecture'', JDict [(''tdp'', JDict [(''value'', JNull)])])])])
     = Inr 300"
proof -
  let ?b1 = "[(''cpu'', JDict [(''architecture'', JDict [(''tdp'', JDict [(''value'', JNum 125)])])]),
            (''gpu'', JDict [(''performance'', JDict [(''tdp'', JDict [(''value'', JNum 350)])]),
                            (''calculated_metrics'', JDict [(''gpu_category'', JStr ''flagship'')])])]"
  let ?b2 = "[(''cpu'', JDict [(''architecture'', JDict [(''tdp'', JDict [(''value'', JNull)])])])]"
  have r1: "build_records ?b1" and r2: "build_records ?b2"
    by (simp_all add: build_records_def category_hashable_def dict_get_def)
  have v1: "power_budget ?b1 = 605"
    by (simp add: power_budget_def spec_cpu_contribution_def category_lookup_def dict_get_def
        gpu_power_map_def)
  have v2: "power_budget ?b2 = 300"
    by (simp add: power_budget_def spec_cpu_contribution_def dict_get_def)
  show ?thesis
    using power_budget_by_category [of ?b1] power_budget_by_category [of ?b2] r1 r2 v1 v2
    by simp
qed

section \<open>Properties of the reports\<close>

lemma ok_inicial: "reporte_ok reporte_inicial"
  by (simp add: reporte_ok_def reporte_inicial_def)

lemma ok_error: "reporte_ok (agregar_error m r)"
  by (simp add: reporte_ok_def agregar_error_def)

lemma ok_advertencia: "reporte_ok (agregar_advertencia m r) = reporte_ok r"
  by (simp add: reporte_ok_def agregar_advertencia_def)

lemma ok_cpu:
  "verificar_cpu_motherboard cfg r = Inr r' \<Longrightarrow> reporte_ok r \<Longrightarrow> reporte_ok r'"
  by (auto simp: verificar_cpu_motherboard_def bind_res_Inr_iff ok_error
           split: option.splits if_splits)

lemma ok_ram:
  "verificar_ram_motherboard cfg r = Inr r' \<Longrightarrow> reporte_ok r \<Longrightarrow> reporte_ok r'"
  by (auto simp: verificar_ram_motherboard_def bind_res_Inr_iff ok_error
           split: option.splits if_splits)

lemma ok_case:
  "verificar_case_motherboard cfg r = Inr r' \<Longrightarrow> reporte_ok r \<Longrightarrow> reporte_ok r'"
  by (auto simp: verificar_case_motherboard_def bind_res_Inr_iff ok_error ok_advertencia
           split: option.splits if_splits)

lemma ok_psu:
  "verificar_psu cfg r = Inr r' \<Longrightarrow> reporte_ok r \<Longrightarrow> reporte_ok r'"
  by (auto simp: verificar_psu_def bind_res_Inr_iff ok_error ok_advertencia
           split: option.splits if_splits)

lemma ok_verificar: "verificar_compatibilidad_completa cfg = Inr r \<Longrightarrow> reporte_ok r"
  unfolding verificar_compatibilidad_completa_def bind_res_Inr_iff
  using ok_inicial ok_cpu ok_ram ok_case ok_psu by blast

lemma ok_gpu:
  "validar_gpu_case cs gpu r = Inr r' \<Longrightarrow> reporte_ok r \<Longrightarrow> reporte_ok r'"
  by (auto simp: validar_gpu_case_def bind_res_Inr_iff ok_error ok_advertencia Let_def
           split: if_splits)

lemma ok_cooler:
  "validar_cooler_case cs c r = Inr r' \<Longrightarrow> reporte_ok r \<Longrightarrow> reporte_ok r'"
  by (auto simp: validar_cooler_case_def bind_res_Inr_iff ok_error Let_def split: if_splits)

lemma ok_dimensiones: "validar_dimensiones_fisicas cfg = Inr r \<Longrightarrow> reporte_ok r"
  unfolding validar_dimensiones_fisicas_def Let_def bind_res_Inr_iff
  using ok_inicial ok_gpu ok_cooler by blast

lemma ok_slots:
  "validar_slots_ram mb rams r = Inr r' \<Longrightarrow> reporte_ok r \<Longrightarrow> reporte_ok r'"
  by (auto simp: validar_slots_ram_def bind_res_Inr_iff ok_error split: if_splits)

lemma ok_sata:
  "validar_puertos_sata mb devs r = Inr r' \<Longrightarrow> reporte_ok r \<Longrightarrow> reporte_ok r'"
  by (auto simp: validar_puertos_sata_def bind_res_Inr_iff ok_error split: if_splits)

lemma ok_conectividad: "validar_conectividad cfg = Inr r \<Longrightarrow> reporte_ok r"
  unfolding validar_conectividad_def Let_def bind_res_Inr_iff
  using ok_inicial ok_slots ok_sata by blast

text \<open>
  C3.  Every report that the full-build validator, the dimension validator or the
  connectivity validator returns has \<open>compatible = False\<close> exactly when its list of errors
  is not empty; appending a warning changes neither the flag nor the errors.
\<close>

theorem compatible_iff_no_errors:
  "(verificar_compatibilidad_completa cfg = Inr r \<longrightarrow> (\<not> compatible r) = (errores r \<noteq> []))
   \<and> (validar_dimensiones_fisicas cfg = Inr r \<longrightarrow> (\<not> compatible r) = (errores r \<noteq> []))
   \<and> (validar_conectividad cfg = Inr r \<longrightarrow> (\<not> compatible r) = (errores r \<noteq> []))
   \<and> compatible (agregar_advertencia m r') = compatible r'
   \<and> errores (agregar_advertencia m r') = errores r'"
  using ok_verificar [of cfg r] ok_dimensiones [of cfg r] ok_conectividad [of cfg r]
  by (auto simp: reporte_ok_def agregar_advertencia_def)

theorem compatible_iff_no_errors_witness:
  "verificar_compatibilidad_completa
     [(''cpu'', JDict [(''architecture'', JDict [(''socket'', JStr ''AM4'')])]),
      (''motherboard'', JDict [(''platform'', JDict [(''socket'', JStr ''LGA1700'')])]),
      (''psu'', JDict [(''power'', JDict [(''wattage'', JDict [(''value'', JNum 350)])])])]
     = Inr \<lparr>compatible = False,
            advertencias = [PSUMargenAjustado 350 300],
            errores = [IncompatibilidadSocket (JStr ''AM4'') (JStr ''LGA1700'')]\<rparr>
   \<and> verificar_compatibilidad_completa
       [(''psu'', JDict [(''power'', JDict [(''wattage'', JDict [(''value'', JNum 350)])])])]
     = Inr \<lparr>compatible = True, advertencias = [PSUMargenAjustado 350 300], errores = []\<rparr>
   \<and> (\<not> compatible \<lparr>compatible = False,
            advertencias = [PSUMargenAjustado 350 300],
            errores = [IncompatibilidadSocket (JStr ''AM4'') (JStr ''LGA1700'')]\<rparr>)
       = (errores \<lparr>compatible = False,
            advertencias = [PSUMargenAjustado 350 300],
            errores = [IncompatibilidadSocket (JStr ''AM4'') (JStr ''LGA1700'')]\<rparr> \<noteq> [])"
proof -
  let ?cfg1 = "[(''cpu'', JDict [(''architecture'', JDict [(''socket'', JStr ''AM4'')])]),
      (''motherboard'', JDict [(''platform'', JDict [(''socket'', JStr ''LGA1700'')])]),
      (''psu'', JDict [(''power'', JDict [(''wattage'', JDict [(''value'', JNum 350)])])])]"
  let ?r1 = "\<lparr>compatible = False,
            advertencias = [PSUMargenAjustado 350 300],
            errores = [IncompatibilidadSocket (JStr ''AM4'') (JStr ''LGA1700'')]\<rparr>"
  have e1: "verificar_compatibilidad_completa ?cfg1 = Inr ?r1"
    by (simp add: verificar_compatibilidad_completa_def verificar_cpu_motherboard_def
        verificar_ram_motherboard_def verificar_case_motherboard_def verificar_psu_def
        calcular_potencia_requerida_def potencia_cpu_def extraer_potencia_psu_def
        dict_get_def py_eq_def py_cmp_def reporte_inicial_def agregar_error_def
        agregar_advertencia_def)
  have e2: "verificar_compatibilidad_completa
       [(''psu'', JDict [(''power'', JDict [(''wattage'', JDict [(''value'', JNum 350)])])])]
     = Inr \<lparr>compatible = True, advertencias = [PSUMargenAjustado 350 300], errores = []\<rparr>"
    by (simp add: verificar_compatibilidad_completa_def verificar_cpu_motherboard_def
        verificar_ram_motherboard_def verificar_case_motherboard_def verificar_psu_def
        calcular_potencia_requerida_def extraer_potencia_psu_def
        dict_get_def py_eq_def py_cmp_def reporte_inicial_def agregar_advertencia_def)
  show ?thesis
    using compatible_iff_no_errors [of ?cfg1 ?r1] e1 e2 by blast
qed

section \<open>Missing data in the validators\<close>

text \<open>
  C4.  The socket check and the memory check compare the two values as they are read.  A
  CPU on socket \<^verbatim>\<open>AM4\<close> with a motherboard that has no socket value is reported as an
  incompatibility, and so is a RAM module without a generation on a \<^verbatim>\<open>DDR4\<close> board; when
  both sides lack the value nothing is reported at all.  The form-factor check of the same
  function, on a case without a motherboard support value, skips the comparison and warns.
\<close>

theorem missing_socket_reported_as_error:
  "verificar_compatibilidad_completa
     [(''cpu'', JDict [(''architecture'', JDict [(''socket'', JStr ''AM4'')])]),
      (''motherboard'', JDict [(''platform'', JDict [])])]
     = Inr \<lparr>compatible = False, advertencias = [],
            errores = [IncompatibilidadSocket (JStr ''AM4'') JNull]\<rparr>
   \<and> verificar_compatibilidad_completa
       [(''ram'', JDict [(''memory_specs'', JDict [(''ram_type'', JDict [(''generation'', JStr '''')])])]),
        (''motherboard'', JDict [(''memory'', JDict [(''type'', JStr ''DDR4'')])])]
     = Inr \<lparr>compatible = False, advertencias = [],
            errores = [IncompatibilidadRAM (JStr '''') (JStr ''DDR4'')]\<rparr>
   \<and> verificar_compatibilidad_completa
       [(''cpu'', JDict [(''name'', JStr ''cpu'')]), (''motherboard'', JDict [(''name'', JStr ''mb'')])]
     = Inr \<lparr>compatible = True, advertencias = [], errores = []\<rparr>
   \<and> verificar_compatibilidad_completa
       [(''case'', JDict [(''compatibility'', JDict [(''motherboard'', JStr '''')])]),
        (''motherboard'', JDict [(''form_factor'', JStr ''ATX'')])]
     = Inr \<lparr>compatible = True, advertencias = [CaseNoEspecificaMotherboard], errores = []\<rparr>"
  by (simp add: verificar_compatibilidad_completa_def verificar_cpu_motherboard_def
      verificar_ram_motherboard_def verificar_case_motherboard_def verificar_psu_def
      dict_get_def py_eq_def reporte_inicial_def agregar_error_def agregar_advertencia_def)

text \<open>
  C5.  The normaliser writes the wattage of a PSU whose \<^verbatim>\<open>Watt\<close> column cannot be parsed as
  \<^verbatim>\<open>{'value': None, 'unit': 'W'}\<close>.  On such a PSU \<^verbatim>\<open>.get('value', 0)\<close> yields \<^verbatim>\<open>None\<close>, the
  test \<^verbatim>\<open>psu_wattage == 0\<close> is false and \<^verbatim>\<open>psu_wattage > 0\<close> raises \<^verbatim>\<open>TypeError\<close>: no
  report and no warning.  Only a PSU whose record has no wattage entry gets the warning.
\<close>

theorem psu_unparsed_wattage_raises:
  "verificar_compatibilidad_completa
     [(''psu'', JDict [(''power'', JDict [(''wattage'', JDict [(''value'', JNull), (''unit'', JStr ''W'')])])])]
     = Inl TypeError
   \<and> verificar_compatibilidad_completa [(''psu'', JDict [(''name'', JStr ''psu'')])]
     = Inr \<lparr>compatible = True, advertencias = [PSUNoEspecificaPotencia], errores = []\<rparr>"
  by (simp add: verificar_compatibilidad_completa_def verificar_cpu_motherboard_def
      verificar_ram_motherboard_def verificar_case_motherboard_def verificar_psu_def
      calcular_potencia_requerida_def extraer_potencia_psu_def
      dict_get_def py_eq_def py_cmp_def reporte_inicial_def agregar_advertencia_def)

lemma psu_thresholds:
  assumes "map_of cfg ''psu'' = Some psu"
    and "calcular_potencia_requerida (Some cfg) = Inr req"
    and "extraer_potencia_psu psu = Inr w" and "py_num w = Some x" and "0 < x"
  shows "verificar_psu cfg r =
           Inr (if x < req then agregar_error (PSUInsuficiente x req) r
                else if x < req * 1.2 then agregar_advertencia (PSUMargenAjustado x req) r
                else r)"
  using assms by (simp add: verificar_psu_def py_cmp_def)

lemma psu_not_positive_warning:
  assumes "map_of cfg ''psu'' = Some psu"
    and "calcular_potencia_requerida (Some cfg) = Inr req"
    and "extraer_potencia_psu psu = Inr w" and "py_num w = Some x" and "x \<le> 0"
  shows "verificar_psu cfg r = Inr (agregar_advertencia PSUNoEspecificaPotencia r)"
  using assms by (simp add: verificar_psu_def py_cmp_def)

text \<open>
  The margin on a build whose estimate is 450 W (a CPU of 190 W and a mid-range GPU):
  a PSU of 400 W is an error, one of 500 W a warning, one of 600 W passes in silence.
\<close>

lemma psu_margin_examples:
  "verificar_compatibilidad_completa
     [(''cpu'', JDict [(''architecture'', JDict [(''tdp'', JDict [(''value'', JNum 190)])])]),
      (''gpu'', JDict [(''calculated_metrics'', JDict [(''gpu_category'', JStr ''mid_range'')])]),
      (''psu'', JDict [(''power'', JDict [(''wattage'', JDict [(''value'', JNum 400)])])])]
     = Inr \<lparr>compatible = False, advertencias = [], errores = [PSUInsuficiente 400 450]\<rparr>"
  "verificar_compatibilidad_completa
     [(''cpu'', JDict [(''architecture'', JDict [(''tdp'', JDict [(''value'', JNum 190)])])]),
      (''gpu'', JDict [(''calculated_metrics'', JDict [(''gpu_category'', JStr ''mid_range'')])]),
      (''psu'', JDict [(''power'', JDict [(''wattage'', JDict [(''value'', JNum 500)])])])]
     = Inr \<lparr>compatible = True, advertencias = [PSUMargenAjustado 500 450], errores = []\<rparr>"
  "verificar_compatibilidad_completa
     [(''cpu'', JDict [(''architecture'', JDict [(''tdp'', JDict [(''value'', JNum 190)])])]),
      (''gpu'', JDict [(''calculated_metrics'', JDict [(''gpu_category'', JStr ''mid_range'')])]),
      (''psu'', JDict [(''power'', JDict [(''wattage'', JDict [(''value'', JNum 600)])])])]
     = Inr \<lparr>compatible = True, advertencias = [], errores = []\<rparr>"
  by (simp_all add: verificar_compatibilidad_completa_def verificar_cpu_motherboard_def
      verificar_ram_motherboard_def verificar_case_motherboard_def verificar_psu_def
      calcular_potencia_requerida_def potencia_cpu_def potencia_gpu_def gpu_power_map_def
      extraer_potencia_psu_def dict_get_def py_eq_def py_cmp_def reporte_inicial_def
      agregar_error_def agregar_advertencia_def)

section \<open>The GPU fit check\<close>

lemma gpu_case_thresholds:
  assumes "truthy cs" and "truthy gpu"
    and "valor_anidado cs ''compatibility'' ''supported_gpu_length'' = Inr lv"
    and "valor_anidado gpu ''dimensions'' ''length'' = Inr gv"
    and "py_num lv = Some l" and "py_num gv = Some g" and "0 < l" and "0 < g"
  shows "validar_gpu_case cs gpu r =
           Inr (if g > l then agregar_error (GPUMuyLarga g l) r
                else if g > l * 0.9 then agregar_advertencia (GPUAjustada g l) r
                else r)"
  using assms by (simp add: validar_gpu_case_def py_cmp_def)

lemma gpu_case_not_positive:
  assumes "valor_anidado cs ''compatibility'' ''supported_gpu_length'' = Inr lv"
    and "valor_anidado gpu ''dimensions'' ''length'' = Inr gv"
    and "py_num lv = Some l" and "py_num gv = Some g" and "l \<le> 0 \<or> g \<le> 0"
  shows "validar_gpu_case cs gpu r = Inr r"
  using assms by (auto simp: validar_gpu_case_def py_cmp_def)

text \<open>
  C6.  The normaliser writes the length of a GPU under \<^verbatim>\<open>physical.length\<close>
  (\<^verbatim>\<open>GPUDataNormalizer.normalize_row\<close>), and the other readers of the repository take it
  from there; the validator reads \<^verbatim>\<open>dimensions.length\<close>, which no record has, so the length
  is always the default 0 and the pair is passed over: a GPU of 330 mm in a case that
  admits 320 mm gets a clean report, and one of 305 mm gets no warning.  A case whose
  limit was not parsed is stored with the value \<^verbatim>\<open>None\<close>; then \<^verbatim>\<open>max_gpu_length > 0\<close> raises
  \<^verbatim>\<open>TypeError\<close> and no report is returned.  Only on a record that carries
  \<^verbatim>\<open>dimensions.length\<close> does the check compare the two lengths.
\<close>

theorem gpu_length_never_compared:
  "validar_dimensiones_fisicas
     [(''case'', JDict [(''compatibility'', JDict [(''supported_gpu_length'',
          JDict [(''value'', JNum 320), (''unit'', JStr ''mm''), (''raw_value'', JStr ''320 mm'')])])]),
      (''gpu'', JDict [(''physical'', JDict [(''length'',
          JDict [(''value'', JNum 330), (''unit'', JStr ''mm''), (''raw_value'', JStr ''330 mm'')])])])]
     = Inr \<lparr>compatible = True, advertencias = [], errores = []\<rparr>
   \<and> validar_dimensiones_fisicas
     [(''case'', JDict [(''compatibility'', JDict [(''supported_gpu_length'',
          JDict [(''value'', JNum 320), (''unit'', JStr ''mm''), (''raw_value'', JStr ''320 mm'')])])]),
      (''gpu'', JDict [(''physical'', JDict [(''length'',
          JDict [(''value'', JNum 305), (''unit'', JStr ''mm''), (''raw_value'', JStr ''305 mm'')])])])]
     = Inr \<lparr>compatible = True, advertencias = [], errores = []\<rparr>
   \<and> validar_dimensiones_fisicas
     [(''case'', JDict [(''compatibility'', JDict [(''supported_gpu_length'',
          JDict [(''value'', JNull), (''unit'', JNull), (''raw_value'', JStr '''')])])]),
      (''gpu'', JDict [(''physical'', JDict [(''length'',
          JDict [(''value'', JNum 305), (''unit'', JStr ''mm''), (''raw_value'', JStr ''305 mm'')])])])]
     = Inl TypeError
   \<and> validar_dimensiones_fisicas
     [(''case'', JDict [(''compatibility'', JDict [(''supported_gpu_length'', JDict [(''value'', JNum 320)])])]),
      (''gpu'', JDict [(''dimensions'', JDict [(''length'', JDict [(''value'', JNum 330)])])])]
     = Inr \<lparr>compatible = False, advertencias = [], errores = [GPUMuyLarga 330 320]\<rparr>
   \<and> validar_dimensiones_fisicas
     [(''case'', JDict [(''compatibility'', JDict [(''supported_gpu_length'', JDict [(''value'', JNum 320)])])]),
      (''gpu'', JDict [(''dimensions'', JDict [(''length'', JDict [(''value'', JNum 305)])])])]
     = Inr \<lparr>compatible = True, advertencias = [GPUAjustada 305 320], errores = []\<rparr>"
  by (simp add: validar_dimensiones_fisicas_def validar_gpu_case_def validar_cooler_case_def
      valor_anidado_def dict_get_def py_cmp_def reporte_inicial_def agregar_error_def
      agregar_advertencia_def)

section \<open>Socket families\<close>

text \<open>
  C7.  The AMD markers are searched in \<^verbatim>\<open>socket.upper()\<close>, so the marker \<^verbatim>\<open>sTRX4\<close>, which
  has a lower-case letter, is never found.  The socket \<^verbatim>\<open>sTRX4\<close> contains that marker
  (whatever the case) and is AMD by the rule; the code puts it in both families, and a
  cooler whose only sockets are \<^verbatim>\<open>sTRX4\<close> and \<^verbatim>\<open>TR4\<close> is reported as universal.
\<close>

theorem strx4_in_both_families:
  "get_socket_families [''sTRX4''] = \<lparr>intel = [''sTRX4''], amd = [''sTRX4'']\<rparr>
   \<and> spec_familia ''sTRX4'' = AMD
   \<and> is_universal [''sTRX4'']
   \<and> \<not> spec_is_universal [''sTRX4'']
   \<and> socket_support_from_string ''sTRX4, TR4'' = [''sTRX4'', ''TR4'']
   \<and> analyze_is_universal ''sTRX4, TR4''
   \<and> \<not> spec_is_universal [''sTRX4'', ''TR4'']"
proof -
  have up: "py_upper ''sTRX4'' = ''STRX4''" "py_upper ''TR4'' = ''TR4''" "py_upper ''AM'' = ''AM''"
    "py_upper ''FM'' = ''FM''"
    by (simp_all add: py_upper_def upper_char_def dict_get_def)
  have dig: "\<not> py_isdigit ''sTRX4''" "\<not> py_isdigit ''TR4''"
    by (simp_all add: py_isdigit_def)
  have f1: "get_socket_families [''sTRX4''] = \<lparr>intel = [''sTRX4''], amd = [''sTRX4'']\<rparr>"
    by (simp add: get_socket_families_def up dig amd_markers_def)
  have f2: "get_socket_families [''sTRX4'', ''TR4'']
              = \<lparr>intel = [''sTRX4''], amd = [''sTRX4'', ''TR4'']\<rparr>"
    by (simp add: get_socket_families_def up dig amd_markers_def)
  have s1: "spec_familia ''sTRX4'' = AMD" and s2: "spec_familia ''TR4'' = AMD"
    by (simp_all add: spec_familia_def contains_ignoring_case_def up dig amd_markers_def)
  have sp: "socket_support_from_string ''sTRX4, TR4'' = [''sTRX4'', ''TR4'']"
    by (simp add: socket_support_from_string_def py_strip_def is_space_def)
  show ?thesis
    by (simp add: f1 f2 s1 s2 sp is_universal_def analyze_is_universal_def spec_is_universal_def)
qed

section \<open>Properties of the filters\<close>

lemma py_eq_JStr: "py_eq v (JStr s) = (v = JStr s)"
  by (cases v) (simp_all add: py_eq_def)

lemma socket_de_motherboard_record:
  "motherboard_record mb \<Longrightarrow> \<exists>v. socket_de_motherboard mb = Inr v"
  by (cases mb) (auto simp: motherboard_record_def socket_de_motherboard_def elim: is_dict.elims)

lemma bucle_motherboards_filter:
  "filtrar_motherboards_bucle mbs s acc = Inr r \<Longrightarrow>
     r = acc @ filter (\<lambda>mb. socket_de_motherboard mb = Inr (JStr s)) mbs"
proof (induction mbs arbitrary: acc)
  case Nil
  then show ?case by simp
next
  case (Cons mb mbs)
  from Cons.prems obtain v where v: "socket_de_motherboard mb = Inr v"
    and rest: "filtrar_motherboards_bucle mbs s (if py_eq v (JStr s) then acc @ [mb] else acc) = Inr r"
    by (auto simp: bind_res_Inr_iff)
  from Cons.IH [OF rest] show ?case
    by (simp add: v py_eq_JStr)
qed

lemma bucle_motherboards_total:
  "list_all motherboard_record mbs \<Longrightarrow> \<exists>r. filtrar_motherboards_bucle mbs s acc = Inr r"
proof (induction mbs arbitrary: acc)
  case Nil
  then show ?case by simp
next
  case (Cons mb mbs)
  then obtain v where v: "socket_de_motherboard mb = Inr v"
    using socket_de_motherboard_record by auto
  show ?case using Cons by (simp add: v)
qed

text \<open>
  C8.  On a catalog of motherboard records the filter by socket returns, and what it
  returns is the catalog filtered, in catalog order, by "the socket that is read equals the
  string \<open>s\<close>"; equality of strings is equality of their characters, so \<^verbatim>\<open>am4\<close> does not
  select a board on \<^verbatim>\<open>AM4\<close>.
\<close>

theorem motherboards_by_socket_exact:
  "(list_all motherboard_record (datos_get d ''motherboard'') \<longrightarrow>
      filtrar_motherboards_por_socket d s =
        Inr (filter (\<lambda>mb. socket_de_motherboard mb = Inr (JStr s)) (datos_get d ''motherboard'')))
   \<and> (filtrar_motherboards_por_socket d s = Inr r \<longrightarrow>
        r = filter (\<lambda>mb. socket_de_motherboard mb = Inr (JStr s)) (datos_get d ''motherboard''))"
proof -
  have ret: "r = filter (\<lambda>mb. socket_de_motherboard mb = Inr (JStr s)) (datos_get d ''motherboard'')"
    if "filtrar_motherboards_por_socket d s = Inr r" for r
    using bucle_motherboards_filter [of "datos_get d ''motherboard''" s "[]" r] that
    by (simp add: filtrar_motherboards_por_socket_def)
  have "filtrar_motherboards_por_socket d s =
        Inr (filter (\<lambda>mb. socket_de_motherboard mb = Inr (JStr s)) (datos_get d ''motherboard''))"
    if "list_all motherboard_record (datos_get d ''motherboard'')"
  proof -
    from bucle_motherboards_total [OF that, of s "[]"] obtain r0
      where r0: "filtrar_motherboards_por_socket d s = Inr r0"
      by (auto simp: filtrar_motherboards_por_socket_def)
    with ret [OF r0] show ?thesis by simp
  qed
  with ret show ?thesis by blast
qed

theorem motherboards_by_socket_exact_witness:
  "filtrar_motherboards_por_socket
     [''motherboard'' \<mapsto>
        [JDict [(''name'', JStr ''A''), (''platform'', JDict [(''socket'', JStr ''AM4'')])],
         JDict [(''name'', JStr ''B''), (''platform'', JDict [(''socket'', JStr ''LGA1700'')])],
         JDict [(''name'', JStr ''C''), (''platform'', JDict [(''socket'', JStr ''am4'')])],
         JDict [(''name'', JStr ''D'')],
         JDict [(''name'', JStr ''E''), (''platform'', JDict [(''socket'', JStr ''AM4'')])]]]
     ''AM4''
   = Inr [JDict [(''name'', JStr ''A''), (''platform'', JDict [(''socket'', JStr ''AM4'')])],
          JDict [(''name'', JStr ''E''), (''platform'', JDict [(''socket'', JStr ''AM4'')])]]
   \<and> filtrar_motherboards_por_socket
       [''motherboard'' \<mapsto>
          [JDict [(''name'', JStr ''A''), (''platform'', JDict [(''socket'', JStr ''AM4'')])]]]
       ''am4''
     = Inr []"
proof -
  let ?d1 = "[''motherboard'' \<mapsto>
        [JDict [(''name'', JStr ''A''), (''platform'', JDict [(''socket'', JStr ''AM4'')])],
         JDict [(''name'', JStr ''B''), (''platform'', JDict [(''socket'', JStr ''LGA1700'')])],
         JDict [(''name'', JStr ''C''), (''platform'', JDict [(''socket'', JStr ''am4'')])],
         JDict [(''name'', JStr ''D'')],
         JDict [(''name'', JStr ''E''), (''platform'', JDict [(''socket'', JStr ''AM4'')])]]]"
  let ?d2 = "[''motherboard'' \<mapsto>
          [JDict [(''name'', JStr ''A''), (''platform'', JDict [(''socket'', JStr ''AM4'')])]]]"
  have w1: "list_all motherboard_record (datos_get ?d1 ''motherboard'')"
    and w2: "list_all motherboard_record (datos_get ?d2 ''motherboard'')"
    by (simp_all add: datos_get_def motherboard_record_def dict_get_def)
  show ?thesis
    using motherboards_by_socket_exact [of ?d1 "''AM4''", THEN conjunct1]
      motherboards_by_socket_exact [of ?d2 "''am4''", THEN conjunct1] w1 w2
    by (simp add: datos_get_def socket_de_motherboard_def dict_get_def)
qed

lemma ram_bucle_keep:
  "list_all (ram_soportada tipos) ys \<Longrightarrow> filtrar_ram_bucle ys tipos acc = Inr (acc @ ys)"
proof (induction ys arbitrary: acc)
  case Nil
  then show ?case by simp
next
  case (Cons y ys)
  then have y: "ram_soportada tipos y" and ys: "list_all (ram_soportada tipos) ys"
    by simp_all
  from y obtain g where g: "generacion_de_ram y = Inr g" "set_contains g tipos = Inr True"
    by (auto simp: ram_soportada_def bind_res_Inr_iff)
  show ?case
    using Cons.IH [OF ys, of "acc @ [y]"] by (simp add: g)
qed

lemma ram_bucle_result:
  "filtrar_ram_bucle xs tipos acc = Inr r \<Longrightarrow> r = acc @ filter (ram_soportada tipos) xs"
proof (induction xs arbitrary: acc)
  case Nil
  then show ?case by simp
next
  case (Cons x xs)
  from Cons.prems obtain g b where g: "generacion_de_ram x = Inr g" "set_contains g tipos = Inr b"
    and rest: "filtrar_ram_bucle xs tipos (if b then acc @ [x] else acc) = Inr r"
    by (auto simp: bind_res_Inr_iff)
  have "ram_soportada tipos x = b"
    by (simp add: ram_soportada_def g)
  with Cons.IH [OF rest] show ?case by simp
qed

lemma ram_idempotent:
  assumes "filtrar_ram_por_motherboard d s f = Inr (rams, tipos)"
  shows "list_all (ram_soportada tipos) rams"
    and "filtrar_ram_por_motherboard (d(''ram'' \<mapsto> rams)) s f = Inr (rams, tipos)"
proof -
  from assms obtain mbs where
    mbs: "motherboards_compatibles (datos_get d ''motherboard'') s f = Inr mbs"
    and tipos: "recoger_tipos_ram mbs [] = Inr tipos"
    and bucle: "filtrar_ram_bucle (datos_get d ''ram'') tipos [] = Inr rams"
    by (auto simp: filtrar_ram_por_motherboard_def bind_res_Inr_iff)
  from ram_bucle_result [OF bucle]
  have rams: "rams = filter (ram_soportada tipos) (datos_get d ''ram'')"
    by simp
  then show all: "list_all (ram_soportada tipos) rams"
    by (simp add: list_all_iff)
  have same: "datos_get (d(''ram'' \<mapsto> rams)) ''motherboard'' = datos_get d ''motherboard''"
    "datos_get (d(''ram'' \<mapsto> rams)) ''ram'' = rams"
    by (simp_all add: datos_get_def)
  show "filtrar_ram_por_motherboard (d(''ram'' \<mapsto> rams)) s f = Inr (rams, tipos)"
    using ram_bucle_keep [OF all, of "[]"]
    by (simp add: filtrar_ram_por_motherboard_def same mbs tipos)
qed

lemma py_eq_sym: "py_eq a b = py_eq b a"
  by (auto simp: py_eq_def split: option.splits)

lemma py_eq_trans: "py_eq a b \<Longrightarrow> py_eq b c \<Longrightarrow> py_eq a c"
  by (auto simp: py_eq_def split: option.splits)

lemma comprension_filter:
  "comprension c xs = Inr r \<Longrightarrow> r = filter (\<lambda>x. c x = Inr True) xs"
proof (induction xs arbitrary: r)
  case Nil
  then show ?case by simp
next
  case (Cons x xs)
  from Cons.prems obtain b r0 where b: "c x = Inr b" and r0: "comprension c xs = Inr r0"
    and r: "r = (if b then x # r0 else r0)"
    by (auto simp: bind_res_Inr_iff)
  from Cons.IH [OF r0] show ?case
    by (simp add: r b)
qed

lemma motherboards_compatibles_filter:
  assumes "motherboards_compatibles mbs s f = Inr r"
  shows "r = filter (\<lambda>mb. coincide_socket s mb \<and> coincide_form_factor f mb) mbs"
proof -
  from assms obtain mbs1 where
    s1: "(case s of None \<Rightarrow> Inr mbs
          | Some s \<Rightarrow> if s = [] then Inr mbs
              else comprension (\<lambda>mb. bind_res (socket_de_motherboard mb) (\<lambda>v. Inr (py_eq v (JStr s)))) mbs)
         = Inr mbs1"
    and s2: "(case f of None \<Rightarrow> Inr mbs1
          | Some f \<Rightarrow> if f = [] then Inr mbs1
              else comprension (\<lambda>mb. bind_res (py_get mb ''form_factor'' JNull) (\<lambda>v. Inr (py_eq v (JStr f)))) mbs1)
         = Inr r"
    by (auto simp: motherboards_compatibles_def bind_res_Inr_iff)
  have c1: "(bind_res (socket_de_motherboard mb) (\<lambda>v. Inr (py_eq v (JStr x))) = Inr True)
              = (socket_de_motherboard mb = Inr (JStr x))" for mb x
    by (cases "socket_de_motherboard mb") (simp_all add: py_eq_JStr)
  have c2: "(bind_res (py_get mb ''form_factor'' JNull) (\<lambda>v. Inr (py_eq v (JStr x))) = Inr True)
              = (py_get mb ''form_factor'' JNull = Inr (JStr x))" for mb x
    by (cases "py_get mb ''form_factor'' JNull") (simp_all add: py_eq_JStr)
  have m1: "mbs1 = filter (\<lambda>mb. coincide_socket s mb) mbs"
  proof (cases s)
    case None
    with s1 show ?thesis by (simp add: coincide_socket_def)
  next
    case (Some x)
    show ?thesis
    proof (cases "x = []")
      case True
      with s1 Some show ?thesis by (simp add: coincide_socket_def)
    next
      case False
      with s1 Some have "comprension (\<lambda>mb. bind_res (socket_de_motherboard mb) (\<lambda>v. Inr (py_eq v (JStr x)))) mbs = Inr mbs1"
        by simp
      from comprension_filter [OF this] show ?thesis
        using Some False by (simp add: coincide_socket_def c1)
    qed
  qed
  have m2: "r = filter (\<lambda>mb. coincide_form_factor f mb) mbs1"
  proof (cases f)
    case None
    with s2 show ?thesis by (simp add: coincide_form_factor_def)
  next
    case (Some x)
    show ?thesis
    proof (cases "x = []")
      case True
      with s2 Some show ?thesis by (simp add: coincide_form_factor_def)
    next
      case False
      with s2 Some have "comprension (\<lambda>mb. bind_res (py_get mb ''form_factor'' JNull) (\<lambda>v. Inr (py_eq v (JStr x)))) mbs1 = Inr r"
        by simp
      from comprension_filter [OF this] show ?thesis
        using Some False by (simp add: coincide_form_factor_def c2)
    qed
  qed
  show ?thesis
    by (simp add: m1 m2 conj_commute)
qed

lemma py_index_get:
  "py_index obj k = Inr v \<Longrightarrow> py_get obj k dflt = Inr v"
  by (cases obj) (auto simp: dict_get_def split: option.splits)

lemma set_add_member:
  assumes "set_add t acc = Inr acc'"
  shows "list_ex (py_eq g) acc' = (list_ex (py_eq g) acc \<or> py_eq g t)"
proof (cases "list_ex (py_eq t) acc")
  case True
  then obtain y where y: "y \<in> set acc" "py_eq t y"
    by (auto simp: list_ex_iff)
  have "py_eq g t \<Longrightarrow> list_ex (py_eq g) acc"
    using y py_eq_trans by (auto simp: list_ex_iff)
  with assms True show ?thesis
    by (auto simp: set_add_def split: if_splits)
next
  case False
  with assms show ?thesis
    by (auto simp: set_add_def split: if_splits)
qed

lemma recoger_tipos_member:
  "recoger_tipos_ram mbs acc = Inr tipos \<Longrightarrow>
     list_ex (py_eq g) tipos = (list_ex (py_eq g) acc \<or> list_ex (ofrece_generacion g) mbs)"
proof (induction mbs arbitrary: acc)
  case Nil
  then show ?case by simp
next
  case (Cons mb mbs)
  from Cons.prems obtain mem t where mem: "py_get mb ''memory'' (JDict []) = Inr mem"
    and t: "py_get mem ''type'' JNull = Inr t"
    and rest: "(if truthy t
       then bind_res (py_index mb ''memory'') (\<lambda>mem2.
            bind_res (py_index mem2 ''type'') (\<lambda>t2.
            bind_res (set_add t2 acc) (\<lambda>tipos.
              recoger_tipos_ram mbs tipos)))
       else recoger_tipos_ram mbs acc) = Inr tipos"
    by (auto simp: bind_res_Inr_iff)
  have tm: "tipo_memoria mb = Inr t"
    by (simp add: tipo_memoria_def mem t)
  show ?case
  proof (cases "truthy t")
    case False
    with rest have "recoger_tipos_ram mbs acc = Inr tipos" by simp
    from Cons.IH [OF this] show ?thesis
      using False by (simp add: ofrece_generacion_def tm)
  next
    case True
    with rest obtain mem2 t2 acc' where i1: "py_index mb ''memory'' = Inr mem2"
      and i2: "py_index mem2 ''type'' = Inr t2" and add: "set_add t2 acc = Inr acc'"
      and rec: "recoger_tipos_ram mbs acc' = Inr tipos"
      by (auto simp: bind_res_Inr_iff)
    from py_index_get [OF i1, of "JDict []"] mem have "mem2 = mem" by simp
    with py_index_get [OF i2, of JNull] t have "t2 = t" by simp
    from Cons.IH [OF rec] set_add_member [OF add, of g] show ?thesis
      using True \<open>t2 = t\<close> by (auto simp: ofrece_generacion_def tm)
  qed
qed

lemma ram_bucle_reads:
  "filtrar_ram_bucle xs tipos acc = Inr r \<Longrightarrow> x \<in> set xs \<Longrightarrow>
     \<exists>g. generacion_de_ram x = Inr g \<and> py_hashable g"
proof (induction xs arbitrary: acc)
  case Nil
  then show ?case by simp
next
  case (Cons y ys)
  from Cons.prems(1) obtain g b where g: "generacion_de_ram y = Inr g" "set_contains g tipos = Inr b"
    and rest: "filtrar_ram_bucle ys tipos (if b then acc @ [y] else acc) = Inr r"
    by (auto simp: bind_res_Inr_iff)
  from g(2) have "py_hashable g"
    by (auto simp: set_contains_def split: if_splits)
  with Cons.IH [OF rest] Cons.prems(2) g(1) show ?case by auto
qed

lemma ram_filter_exact:
  assumes "filtrar_ram_por_motherboard d s f = Inr (rams, tipos)"
  shows "list_ex (py_eq g) tipos = generacion_soportada d s f g"
    and "rams = filter (ram_compatible_spec d s f) (datos_get d ''ram'')"
proof -
  from assms obtain mbs where
    mbs: "motherboards_compatibles (datos_get d ''motherboard'') s f = Inr mbs"
    and tipos: "recoger_tipos_ram mbs [] = Inr tipos"
    and bucle: "filtrar_ram_bucle (datos_get d ''ram'') tipos [] = Inr rams"
    by (auto simp: filtrar_ram_por_motherboard_def bind_res_Inr_iff)
  have m: "mbs = filter (\<lambda>mb. coincide_socket s mb \<and> coincide_form_factor f mb) (datos_get d ''motherboard'')"
    using mbs by (rule motherboards_compatibles_filter)
  show t: "list_ex (py_eq g) tipos = generacion_soportada d s f g" for g
    using recoger_tipos_member [OF tipos, of g]
    by (auto simp: m generacion_soportada_def list_ex_iff)
  have "ram_soportada tipos x = ram_compatible_spec d s f x" if "x \<in> set (datos_get d ''ram'')" for x
  proof -
    from ram_bucle_reads [OF bucle that] obtain g0 where
      g0: "generacion_de_ram x = Inr g0" "py_hashable g0"
      by blast
    then show ?thesis
      by (simp add: ram_soportada_def ram_compatible_spec_def set_contains_def t)
  qed
  then have "filter (ram_soportada tipos) (datos_get d ''ram'')
               = filter (ram_compatible_spec d s f) (datos_get d ''ram'')"
    by (simp cong: filter_cong)
  with ram_bucle_result [OF bucle] show "rams = filter (ram_compatible_spec d s f) (datos_get d ''ram'')"
    by simp
qed

text \<open>
  C9.  When the RAM filter returns the list \<open>rams\<close> and the set \<open>tipos\<close>: a generation is in
  \<open>tipos\<close> exactly when a motherboard of the catalog that matches the socket and the form
  factor has it as its memory type; \<open>rams\<close> is the RAM catalog, in order, restricted to
  the records whose generation is supported in that sense, so every returned entry has a
  supported generation; and the same filter with the same socket and form factor on the
  catalog whose RAM list is \<open>rams\<close> (the motherboards unchanged) returns \<open>rams\<close> and
  \<open>tipos\<close> again.
\<close>

theorem ram_filter_idempotent:
  "filtrar_ram_por_motherboard d s f = Inr (rams, tipos) \<longrightarrow>
     (\<forall>g. list_ex (py_eq g) tipos = generacion_soportada d s f g)
     \<and> rams = filter (ram_compatible_spec d s f) (datos_get d ''ram'')
     \<and> list_all (ram_compatible_spec d s f) rams
     \<and> list_all (ram_soportada tipos) rams
     \<and> filtrar_ram_por_motherboard (d(''ram'' \<mapsto> rams)) s f = Inr (rams, tipos)"
proof
  assume ret: "filtrar_ram_por_motherboard d s f = Inr (rams, tipos)"
  have r: "rams = filter (ram_compatible_spec d s f) (datos_get d ''ram'')"
    using ret by (rule ram_filter_exact(2))
  have "list_all (ram_compatible_spec d s f) (filter (ram_compatible_spec d s f) (datos_get d ''ram''))"
    by (simp add: list_all_iff)
  with r have a: "list_all (ram_compatible_spec d s f) rams"
    by simp
  show "(\<forall>g. list_ex (py_eq g) tipos = generacion_soportada d s f g)
     \<and> rams = filter (ram_compatible_spec d s f) (datos_get d ''ram'')
     \<and> list_all (ram_compatible_spec d s f) rams
     \<and> list_all (ram_soportada tipos) rams
     \<and> filtrar_ram_por_motherboard (d(''ram'' \<mapsto> rams)) s f = Inr (rams, tipos)"
    using ram_filter_exact(1) [OF ret] r a ram_idempotent [OF ret] by blast
qed

theorem ram_filter_idempotent_witness:
  "filtrar_ram_por_motherboard
     [''motherboard'' \<mapsto>
        [JDict [(''platform'', JDict [(''socket'', JStr ''AM5'')]), (''form_factor'', JStr ''ATX''),
                (''memory'', JDict [(''type'', JStr ''DDR5'')])],
         JDict [(''platform'', JDict [(''socket'', JStr ''AM4'')]), (''form_factor'', JStr ''ATX''),
                (''memory'', JDict [(''type'', JStr ''DDR4'')])],
         JDict [(''platform'', JDict [(''socket'', JStr ''AM4'')]), (''form_factor'', JStr ''Micro-ATX''),
                (''memory'', JDict [(''type'', JStr ''DDR3'')])]],
      ''ram'' \<mapsto>
        [JDict [(''name'', JStr ''b''), (''memory_specs'', JDict [(''ram_type'', JDict [(''generation'', JStr ''DDR5'')])])],
         JDict [(''name'', JStr ''a''), (''memory_specs'', JDict [(''ram_type'', JDict [(''generation'', JStr ''DDR4'')])])],
         JDict [(''name'', JStr ''c''), (''memory_specs'', JDict [(''ram_type'', JDict [(''generation'', JStr '''')])])]]]
     (Some ''AM4'') (Some ''ATX'')
   = Inr ([JDict [(''name'', JStr ''a''), (''memory_specs'', JDict [(''ram_type'', JDict [(''generation'', JStr ''DDR4'')])])]],
          [JStr ''DDR4''])
   \<and> generacion_soportada
       [''motherboard'' \<mapsto>
        [JDict [(''platform'', JDict [(''socket'', JStr ''AM5'')]), (''form_factor'', JStr ''ATX''),
                (''memory'', JDict [(''type'', JStr ''DDR5'')])],
         JDict [(''platform'', JDict [(''socket'', JStr ''AM4'')]), (''form_factor'', JStr ''ATX''),
                (''memory'', JDict [(''type'', JStr ''DDR4'')])],
         JDict [(''platform'', JDict [(''socket'', JStr ''AM4'')]), (''form_factor'', JStr ''Micro-ATX''),
                (''memory'', JDict [(''type'', JStr ''DDR3'')])]],
      ''ram'' \<mapsto>
        [JDict [(''name'', JStr ''b''), (''memory_specs'', JDict [(''ram_type'', JDict [(''generation'', JStr ''DDR5'')])])],
         JDict [(''name'', JStr ''a''), (''memory_specs'', JDict [(''ram_type'', JDict [(''generation'', JStr ''DDR4'')])])],
         JDict [(''name'', JStr ''c''), (''memory_specs'', JDict [(''ram_type'', JDict [(''generation'', JStr '''')])])]]]
       (Some ''AM4'') (Some ''ATX'') (JStr ''DDR4'')
   \<and> \<not> generacion_soportada
       [''motherboard'' \<mapsto>
        [JDict [(''platform'', JDict [(''socket'', JStr ''AM5'')]), (''form_factor'', JStr ''ATX''),
                (''memory'', JDict [(''type'', JStr ''DDR5'')])],
         JDict [(''platform'', JDict [(''socket'', JStr ''AM4'')]), (''form_factor'', JStr ''ATX''),
                (''memory'', JDict [(''type'', JStr ''DDR4'')])],
         JDict [(''platform'', JDict [(''socket'', JStr ''AM4'')]), (''form_factor'', JStr ''Micro-ATX''),
                (''memory'', JDict [(''type'', JStr ''DDR3'')])]],
      ''ram'' \<mapsto>
        [JDict [(''name'', JStr ''b''), (''memory_specs'', JDict [(''ram_type'', JDict [(''generation'', JStr ''DDR5'')])])],
         JDict [(''name'', JStr ''a''), (''memory_specs'', JDict [(''ram_type'', JDict [(''generation'', JStr ''DDR4'')])])],
         JDict [(''name'', JStr ''c''), (''memory_specs'', JDict [(''ram_type'', JDict [(''generation'', JStr '''')])])]]]
       (Some ''AM4'') (Some ''ATX'') (JStr ''DDR5'')
   \<and> filtrar_ram_por_motherboard
     [''motherboard'' \<mapsto>
        [JDict [(''platform'', JDict [(''socket'', JStr ''AM5'')]), (''form_factor'', JStr ''ATX''),
                (''memory'', JDict [(''type'', JStr ''DDR5'')])],
         JDict [(''platform'', JDict [(''socket'', JStr ''AM4'')]), (''form_factor'', JStr ''ATX''),
                (''memory'', JDict [(''type'', JStr ''DDR4'')])],
         JDict [(''platform'', JDict [(''socket'', JStr ''AM4'')]), (''form_factor'', JStr ''Micro-ATX''),
                (''memory'', JDict [(''type'', JStr ''DDR3'')])]],
      ''ram'' \<mapsto>
        [JDict [(''name'', JStr ''a''), (''memory_specs'', JDict [(''ram_type'', JDict [(''generation'', JStr ''DDR4'')])])]]]
     (Some ''AM4'') (Some ''ATX'')
   = Inr ([JDict [(''name'', JStr ''a''), (''memory_specs'', JDict [(''ram_type'', JDict [(''generation'', JStr ''DDR4'')])])]],
          [JStr ''DDR4''])"
proof -
  let ?mbs = "[JDict [(''platform'', JDict [(''socket'', JStr ''AM5'')]), (''form_factor'', JStr ''ATX''),
                (''memory'', JDict [(''type'', JStr ''DDR5'')])],
         JDict [(''platform'', JDict [(''socket'', JStr ''AM4'')]), (''form_factor'', JStr ''ATX''),
                (''memory'', JDict [(''type'', JStr ''DDR4'')])],
         JDict [(''platform'', JDict [(''socket'', JStr ''AM4'')]), (''form_factor'', JStr ''Micro-ATX''),
                (''memory'', JDict [(''type'', JStr ''DDR3'')])]]"
  let ?a = "JDict [(''name'', JStr ''a''), (''memory_specs'', JDict [(''ram_type'', JDict [(''generation'', JStr ''DDR4'')])])]"
  let ?d = "[''motherboard'' \<mapsto> ?mbs,
      ''ram'' \<mapsto>
        [JDict [(''name'', JStr ''b''), (''memory_specs'', JDict [(''ram_type'', JDict [(''generation'', JStr ''DDR5'')])])],
         ?a,
         JDict [(''name'', JStr ''c''), (''memory_specs'', JDict [(''ram_type'', JDict [(''generation'', JStr '''')])])]]]"
  have e: "filtrar_ram_por_motherboard ?d (Some ''AM4'') (Some ''ATX'') = Inr ([?a], [JStr ''DDR4''])"
    by (simp add: filtrar_ram_por_motherboard_def datos_get_def motherboards_compatibles_def
        socket_de_motherboard_def generacion_de_ram_def set_add_def set_contains_def
        dict_get_def py_eq_def)
  have u: "?d(''ram'' \<mapsto> [?a]) = [''motherboard'' \<mapsto> ?mbs, ''ram'' \<mapsto> [?a]]"
    by simp
  note t = ram_filter_idempotent [of ?d "Some ''AM4''" "Some ''ATX''" "[?a]" "[JStr ''DDR4'']", rule_format, OF e]
  have g4: "generacion_soportada ?d (Some ''AM4'') (Some ''ATX'') (JStr ''DDR4'')"
    using t [THEN conjunct1, rule_format, of "JStr ''DDR4''", symmetric]
    by (simp add: py_eq_def)
  have g5: "\<not> generacion_soportada ?d (Some ''AM4'') (Some ''ATX'') (JStr ''DDR5'')"
    using t [THEN conjunct1, rule_format, of "JStr ''DDR5''", symmetric]
    by (simp add: py_eq_def)
  have again: "filtrar_ram_por_motherboard (?d(''ram'' \<mapsto> [?a])) (Some ''AM4'') (Some ''ATX'')
      = Inr ([?a], [JStr ''DDR4''])"
    using t by blast
  show ?thesis
    using e g4 g5 again unfolding u by blast
qed

















end
